theory Spec2Isabelle
  imports Complex_Main
begin

section \<open>The CoreWM widget (src/packages/default/CoreWM/widget.js)\<close>

text \<open>
  A shallow embedding of the widget class: the instance fields, the closure variables of
  \<^verbatim>\<open>bindWidgetEvents\<close> and of \<^verbatim>\<open>_inited\<close>, and the part of the browser the widget
  talks to (clock, timers, animation-frame requests, listeners, the settings handle) are
  the fields of one record, and every method is a function from state to state.

  Numbers are rationals. The geometry is computed exactly: pixel coordinates are
  integers and its only division is by two, where doubles are exact as well. The
  animation loop divides 1000 by any rate, so there every quotient and difference is
  rounded to the nearest double, as the source's arithmetic does. The value
  \<^verbatim>\<open>NaN\<close>, the sign of zero and the value \<^verbatim>\<open>undefined\<close> as a coordinate are
  outside this model.
  A method name loses its leading underscore, an instance field \<^verbatim>\<open>this._x\<close> is \<open>w_x\<close>.
\<close>

subsection \<open>Values\<close>

text \<open>A position field is a number or \<^verbatim>\<open>null\<close>.\<close>

datatype jsval = Null | Num rat

text \<open>Arithmetic on a field converts it to a number first; \<^verbatim>\<open>null\<close> converts to 0.\<close>

fun to_number :: "jsval \<Rightarrow> rat" where
  "to_number Null = 0"
| "to_number (Num x) = x"

text \<open>The test \<^verbatim>\<open>if ( v )\<close>: \<^verbatim>\<open>null\<close> and 0 are falsy.\<close>

fun truthy :: "jsval \<Rightarrow> bool" where
  "truthy Null = False"
| "truthy (Num x) = (x \<noteq> 0)"

text \<open>
  Rounding to the nearest double, ties to even: a significand of 53 bits, the exponent
  not below that of the subnormal numbers.
\<close>

definition pow2 :: "int \<Rightarrow> rat" where
  "pow2 k = (if 0 \<le> k then 2 ^ nat k else 1 / 2 ^ nat (- k))"

function bit_length :: "int \<Rightarrow> int" where
  "bit_length n = (if n \<le> 0 then 0 else bit_length (n div 2) + 1)"
  by pat_completeness auto
termination
  by (relation "measure nat") auto

declare bit_length.simps [simp del]

text \<open>
  The integer part of the binary logarithm of a positive rational: the difference of the
  bit lengths of numerator and denominator, or one less.
\<close>

definition ilog2_near :: "rat \<Rightarrow> int \<Rightarrow> int" where
  "ilog2_near q k = (if pow2 k \<le> q then k else k - 1)"

definition ilog2 :: "rat \<Rightarrow> int" where
  "ilog2 q =
     ilog2_near q (bit_length (fst (quotient_of q)) - bit_length (snd (quotient_of q)))"

definition round_even_from :: "rat \<Rightarrow> int \<Rightarrow> int" where
  "round_even_from x f =
     (if x - of_int f < 1 / 2 then f
      else if 1 / 2 < x - of_int f then f + 1
      else if even f then f else f + 1)"

definition round_even :: "rat \<Rightarrow> int" where
  "round_even x = round_even_from x \<lfloor>x\<rfloor>"

text \<open>A positive number rounded to a multiple of \<open>2\<^sup>e\<close>.\<close>

definition round_at :: "rat \<Rightarrow> int \<Rightarrow> rat" where
  "round_at a e = of_int (round_even (a / pow2 e)) * pow2 e"

definition round_double :: "rat \<Rightarrow> rat" where
  "round_double x =
     (if x = 0 then 0
      else sgn x * round_at \<bar>x\<bar> (max (ilog2 \<bar>x\<bar> - 52) (- 1074)))"

text \<open>
  A number that may be infinite: the result of \<^verbatim>\<open>1000 / fps\<close>. Dividing by zero gives
  \<^verbatim>\<open>Infinity\<close>, and so does a quotient that rounds to \<open>2\<^sup>1\<^sup>0\<^sup>2\<^sup>4\<close> or beyond.
\<close>

datatype interval = Finite rat | Infinity | NegInfinity

definition overflow :: "rat \<Rightarrow> interval" where
  "overflow q =
     (if q \<noteq> 0 \<and> 1024 \<le> ilog2 \<bar>q\<bar>
      then (if 0 < q then Infinity else NegInfinity)
      else Finite q)"

definition js_div :: "rat \<Rightarrow> rat \<Rightarrow> interval" where
  "js_div a b = (if b = 0 then Infinity else overflow (round_double (a / b)))"

text \<open>The difference of two finite numbers of moderate size, as a double.\<close>

definition js_sub :: "rat \<Rightarrow> rat \<Rightarrow> rat" where
  "js_sub a b = round_double (a - b)"

fun js_gt :: "rat \<Rightarrow> interval \<Rightarrow> bool" where
  "js_gt a (Finite b) = (a > b)"
| "js_gt a Infinity = False"
| "js_gt a NegInfinity = True"

text \<open>
  The remainder operator \<^verbatim>\<open>%\<close> truncates the quotient towards zero; its result is
  exact.
\<close>

definition js_trunc :: "rat \<Rightarrow> int" where
  "js_trunc q = (if 0 \<le> q then \<lfloor>q\<rfloor> else \<lceil>q\<rceil>)"

fun js_mod :: "rat \<Rightarrow> interval \<Rightarrow> rat" where
  "js_mod a (Finite b) = a - b * of_int (js_trunc (a / b))"
| "js_mod a Infinity = a"
| "js_mod a NegInfinity = a"

subsection \<open>Defaults\<close>

definition MIN_WIDTH :: rat where "MIN_WIDTH = 64"
definition MIN_HEIGHT :: rat where "MIN_HEIGHT = 64"
definition TIMEOUT_SAVE :: int where "TIMEOUT_SAVE = 500"
definition TIMEOUT_SHOW_ENVELOPE :: int where "TIMEOUT_SHOW_ENVELOPE = 3000"
definition TIMEOUT_HIDE_ENVELOPE :: int where "TIMEOUT_HIDE_ENVELOPE = 1000"

text \<open>
  The options the methods read. \<^verbatim>\<open>resizable\<close> and \<^verbatim>\<open>viewBox\<close> only decorate the
  DOM nodes and are not part of the model.
\<close>

record opts =
  o_aspect :: rat
  o_width :: rat
  o_height :: rat
  o_minWidth :: rat
  o_minHeight :: rat
  o_maxHeight :: rat
  o_maxWidth :: rat
  o_left :: jsval
  o_right :: jsval
  o_top :: jsval
  o_bottom :: jsval
  o_canvas :: bool
  o_frequency :: rat

definition DEFAULT_OPTIONS :: opts where
  "DEFAULT_OPTIONS =
     \<lparr>o_aspect = 0, o_width = 100, o_height = 100,
      o_minWidth = MIN_WIDTH, o_minHeight = MIN_HEIGHT,
      o_maxHeight = 500, o_maxWidth = 500,
      o_left = Num (- 1), o_right = Num (- 1), o_top = Num 0, o_bottom = Num 0,
      o_canvas = False, o_frequency = 2\<rparr>"

text \<open>The options object of the caller: every key may be absent.\<close>

record caller_opts =
  c_aspect :: "rat option"
  c_width :: "rat option"
  c_height :: "rat option"
  c_minWidth :: "rat option"
  c_minHeight :: "rat option"
  c_maxHeight :: "rat option"
  c_maxWidth :: "rat option"
  c_left :: "jsval option"
  c_right :: "jsval option"
  c_top :: "jsval option"
  c_bottom :: "jsval option"
  c_canvas :: "bool option"
  c_frequency :: "rat option"

definition no_opts :: caller_opts where
  "no_opts =
     \<lparr>c_aspect = None, c_width = None, c_height = None, c_minWidth = None,
      c_minHeight = None, c_maxHeight = None, c_maxWidth = None, c_left = None,
      c_right = None, c_top = None, c_bottom = None, c_canvas = None,
      c_frequency = None\<rparr>"

definition pick :: "'a option \<Rightarrow> 'a \<Rightarrow> 'a" where
  "pick v d = (case v of None \<Rightarrow> d | Some x \<Rightarrow> x)"

text \<open>
  Modelled from the spec: \<^verbatim>\<open>Utils.mergeObject\<close> is not part of the source file; the
  constructor "merges options over built-in defaults", key by key.
\<close>

definition mergeObject :: "opts \<Rightarrow> caller_opts \<Rightarrow> opts" where
  "mergeObject d c =
     \<lparr>o_aspect = pick (c_aspect c) (o_aspect d),
      o_width = pick (c_width c) (o_width d),
      o_height = pick (c_height c) (o_height d),
      o_minWidth = pick (c_minWidth c) (o_minWidth d),
      o_minHeight = pick (c_minHeight c) (o_minHeight d),
      o_maxHeight = pick (c_maxHeight c) (o_maxHeight d),
      o_maxWidth = pick (c_maxWidth c) (o_maxWidth d),
      o_left = pick (c_left c) (o_left d),
      o_right = pick (c_right c) (o_right d),
      o_top = pick (c_top c) (o_top d),
      o_bottom = pick (c_bottom c) (o_bottom d),
      o_canvas = pick (c_canvas c) (o_canvas d),
      o_frequency = pick (c_frequency c) (o_frequency d)\<rparr>"

subsection \<open>The settings handle\<close>

text \<open>The six values the widget keeps in its settings fragment; a key may be unset.\<close>

record settings =
  s_left :: "jsval option"
  s_top :: "jsval option"
  s_right :: "jsval option"
  s_bottom :: "jsval option"
  s_width :: "rat option"
  s_height :: "rat option"

definition no_settings :: settings where
  "no_settings =
     \<lparr>s_left = None, s_top = None, s_right = None, s_bottom = None,
      s_width = None, s_height = None\<rparr>"

text \<open>
  Modelled from the spec: the settings fragment is not part of the source file; it
  "exposes \<^verbatim>\<open>get(key, default) -> value\<close>", the stored value or else the default.
\<close>

definition settings_get :: "'a option \<Rightarrow> 'a \<Rightarrow> 'a" where
  "settings_get stored d = pick stored d"

text \<open>The object handed to \<^verbatim>\<open>settings.set(null, opts, true)\<close>.\<close>

record saved =
  sv_width :: rat
  sv_height :: rat
  sv_left :: jsval
  sv_top :: jsval
  sv_right :: jsval
  sv_bottom :: jsval

subsection \<open>The state\<close>

record pos =
  p_left :: jsval
  p_top :: jsval
  p_right :: jsval
  p_bottom :: jsval

text \<open>An object with \<^verbatim>\<open>left\<close> and \<^verbatim>\<open>top\<close>, the argument of \<^verbatim>\<open>_setPosition\<close>.\<close>

record lt =
  l_left :: jsval
  l_top :: jsval

text \<open>
  What a caller passes as \<^verbatim>\<open>obj\<close>: an object of its own, or the object
  \<^verbatim>\<open>this._position\<close> itself, which \<^verbatim>\<open>onMove\<close> hands out. The second is
  aliased: what \<^verbatim>\<open>_setPosition\<close> stores in the position is what a later read of
  \<^verbatim>\<open>obj\<close> sees.
\<close>

datatype pos_arg = Fresh lt | Live

record dim =
  d_width :: rat
  d_height :: rat

record point =
  pt_x :: rat
  pt_y :: rat

text \<open>
  A style value is unset, \<^verbatim>\<open>'auto'\<close>, or \<^verbatim>\<open>String(v) + 'px'\<close> (kept as the value
  \<open>v\<close> it prints).
\<close>

datatype css = Unset | Auto | Px jsval

record element =
  el_left :: css
  el_right :: css
  el_top :: css
  el_bottom :: css
  el_width :: css
  el_height :: css
  el_classes :: "string set"

record canvas =
  cv_width :: rat
  cv_height :: rat

datatype listener =
  MouseMoveModify | MouseUpModify | MouseDownMove | MouseDownResize
  | ClickShow | MouseOverShow | MouseOutHide

datatype timer_action = SaveOptions | ShowEnvelope | HideEnvelope

datatype frame_action = StartLoop | Animate

record state =
  w_position :: pos
  w_dimension :: dim
  w_options :: opts
  w_isManipulating :: bool
  w_windowWidth :: rat
  w_windowHeight :: rat
  w_requestId :: "nat option"
  w_saveTimeout :: "nat option"
  w_resizeTimeout :: "nat option"
  w_element :: "element option"
  w_resize :: bool
  w_canvas :: "canvas option"
  w_context :: bool
  b_timeout :: "nat option"
  b_start :: point
  b_position :: lt
  b_dimension :: dim
  b_action :: string
  a_fps :: rat
  a_loop :: "(interval \<times> rat) option"
  listeners :: "listener set"
  now :: int
  innerWidth :: rat
  innerHeight :: rat
  timers :: "(nat \<times> int \<times> timer_action) list"
  frames :: "(nat \<times> frame_action) list"
  next_handle :: nat
  writes :: "saved list"
  renders :: nat

subsection \<open>Browser primitives\<close>

text \<open>
  \<^verbatim>\<open>setTimeout\<close> queues a callback for \<open>now + delay\<close> and returns its handle;
  \<^verbatim>\<open>clearTimeout\<close> drops the timer with that handle, if there is one (it returns
  \<^verbatim>\<open>undefined\<close>, which the caller stores in the handle field). The animation-frame
  requests work the same way.
\<close>

definition setTimeout :: "timer_action \<Rightarrow> int \<Rightarrow> state \<Rightarrow> nat \<times> state" where
  "setTimeout act delay s =
     (next_handle s,
      s\<lparr>timers := timers s @ [(next_handle s, now s + delay, act)],
        next_handle := Suc (next_handle s)\<rparr>)"

definition clearTimeout :: "nat option \<Rightarrow> state \<Rightarrow> state" where
  "clearTimeout h s = s\<lparr>timers := filter (\<lambda>t. Some (fst t) \<noteq> h) (timers s)\<rparr>"

definition requestAnimationFrame :: "frame_action \<Rightarrow> state \<Rightarrow> nat \<times> state" where
  "requestAnimationFrame act s =
     (next_handle s,
      s\<lparr>frames := frames s @ [(next_handle s, act)],
        next_handle := Suc (next_handle s)\<rparr>)"

definition cancelAnimationFrame :: "nat \<Rightarrow> state \<Rightarrow> state" where
  "cancelAnimationFrame h s = s\<lparr>frames := filter (\<lambda>f. fst f \<noteq> h) (frames s)\<rparr>"

text \<open>
  Modelled from the spec: \<^verbatim>\<open>Utils.$addClass\<close>, \<^verbatim>\<open>Utils.$removeClass\<close>,
  \<^verbatim>\<open>Utils.$remove\<close>, \<^verbatim>\<open>Utils.$bind\<close> and \<^verbatim>\<open>Utils.$unbind\<close> are not part of
  the source file. They are the "generic DOM event-binding utilities": they change the
  class list of a node, detach a node (the field that held it is cleared), add or remove
  a named listener, and do nothing on a node that is \<^verbatim>\<open>null\<close>.
\<close>

definition addClass :: "string \<Rightarrow> state \<Rightarrow> state" where
  "addClass c s =
     (case w_element s of
        None \<Rightarrow> s
      | Some e \<Rightarrow> s\<lparr>w_element := Some (e\<lparr>el_classes := insert c (el_classes e)\<rparr>)\<rparr>)"

definition removeClass :: "string \<Rightarrow> state \<Rightarrow> state" where
  "removeClass c s =
     (case w_element s of
        None \<Rightarrow> s
      | Some e \<Rightarrow> s\<lparr>w_element := Some (e\<lparr>el_classes := el_classes e - {c}\<rparr>)\<rparr>)"

definition unbind :: "listener \<Rightarrow> state \<Rightarrow> state" where
  "unbind l s = s\<lparr>listeners := listeners s - {l}\<rparr>"

definition bind :: "listener \<Rightarrow> state \<Rightarrow> state" where
  "bind l s = s\<lparr>listeners := insert l (listeners s)\<rparr>"

subsection \<open>Geometry accessors\<close>

definition getNormalizedPosition :: "state \<Rightarrow> lt" where
  "getNormalizedPosition s =
     (let left0 = p_left (w_position s);
          left1 = (if truthy (p_right (w_position s))
                   then Num (w_windowWidth s - to_number (p_right (w_position s))
                             - d_width (w_dimension s))
                   else left0);
          top0 = p_top (w_position s);
          top1 = (if truthy (p_bottom (w_position s))
                  then Num (w_windowHeight s - to_number (p_bottom (w_position s))
                            - d_height (w_dimension s))
                  else top0)
      in \<lparr>l_left = left1, l_top = top1\<rparr>)"

definition getDimension :: "state \<Rightarrow> dim" where
  "getDimension s =
     \<lparr>d_width = d_width (w_dimension s), d_height = d_height (w_dimension s)\<rparr>"

definition getPosition :: "state \<Rightarrow> pos" where
  "getPosition s =
     \<lparr>p_left = p_left (w_position s), p_top = p_top (w_position s),
      p_right = p_right (w_position s), p_bottom = p_bottom (w_position s)\<rparr>"

text \<open>
  Modelled from the spec: \<^verbatim>\<open>Utils.cloneObject\<close> is not part of the source file; it is
  one of the "object merge/clone helpers" and returns a copy. Only \<^verbatim>\<open>left\<close> and
  \<^verbatim>\<open>top\<close> of the copy are ever read, so the copy keeps these two.
\<close>

definition cloneObject :: "pos \<Rightarrow> lt" where
  "cloneObject p = \<lparr>l_left = p_left p, l_top = p_top p\<rparr>"

text \<open>
  Reading \<^verbatim>\<open>obj.left\<close> and \<^verbatim>\<open>obj.top\<close>: from the caller's own object, or from
  the position as it is stored at the moment of the read.
\<close>

definition obj_left :: "pos_arg \<Rightarrow> state \<Rightarrow> jsval" where
  "obj_left obj s = (case obj of Fresh ob \<Rightarrow> l_left ob | Live \<Rightarrow> p_left (w_position s))"

definition obj_top :: "pos_arg \<Rightarrow> state \<Rightarrow> jsval" where
  "obj_top obj s = (case obj of Fresh ob \<Rightarrow> l_top ob | Live \<Rightarrow> p_top (w_position s))"

text \<open>\<^verbatim>\<open>obj = obj || this._position\<close>: without an argument the stored position is read.\<close>

definition isPastHalf :: "string \<Rightarrow> pos_arg option \<Rightarrow> state \<Rightarrow> bool" where
  "isPastHalf dir arg s =
     (let obj = (case arg of Some ob \<Rightarrow> ob | None \<Rightarrow> Live);
          hleft = w_windowWidth s / 2;
          aleft = to_number (obj_left obj s) + d_width (w_dimension s) / 2
      in if dir = ''horizontal'' then aleft \<ge> hleft
         else (let htop = w_windowHeight s / 2;
                   atop = to_number (obj_top obj s) + d_height (w_dimension s) / 2
               in atop \<ge> htop))"

subsection \<open>Applying position and dimension to the DOM\<close>

definition updatePosition :: "state \<Rightarrow> state" where
  "updatePosition s =
     (case w_element s of
        None \<Rightarrow> s
      | Some e \<Rightarrow>
          (let e1 = (if p_right (w_position s) \<noteq> Null
                     then e\<lparr>el_left := Auto, el_right := Px (p_right (w_position s))\<rparr>
                     else e\<lparr>el_left := Px (p_left (w_position s)), el_right := Auto\<rparr>);
               e2 = (if p_bottom (w_position s) \<noteq> Null
                     then e1\<lparr>el_top := Auto, el_bottom := Px (p_bottom (w_position s))\<rparr>
                     else e1\<lparr>el_top := Px (p_top (w_position s)), el_bottom := Auto\<rparr>)
           in s\<lparr>w_element := Some e2\<rparr>))"

definition updateDimension :: "state \<Rightarrow> state" where
  "updateDimension s =
     (let s1 = (case w_element s of
                  None \<Rightarrow> s
                | Some e \<Rightarrow>
                    s\<lparr>w_element := Some (e\<lparr>el_width := Px (Num (d_width (w_dimension s))),
                                           el_height := Px (Num (d_height (w_dimension s)))\<rparr>)\<rparr>)
      in case w_canvas s1 of
           None \<Rightarrow> s1
         | Some c \<Rightarrow>
             s1\<lparr>w_canvas := Some (c\<lparr>cv_width := d_width (w_dimension s1),
                                    cv_height := d_height (w_dimension s1)\<rparr>)\<rparr>)"

subsection \<open>Setting position and dimension\<close>

text \<open>The assignments to the four fields of \<^verbatim>\<open>this._position\<close>.\<close>

definition set_top :: "jsval \<Rightarrow> state \<Rightarrow> state" where
  "set_top v s = s\<lparr>w_position := (w_position s)\<lparr>p_top := v\<rparr>\<rparr>"

definition set_left :: "jsval \<Rightarrow> state \<Rightarrow> state" where
  "set_left v s = s\<lparr>w_position := (w_position s)\<lparr>p_left := v\<rparr>\<rparr>"

definition set_bottom :: "jsval \<Rightarrow> state \<Rightarrow> state" where
  "set_bottom v s = s\<lparr>w_position := (w_position s)\<lparr>p_bottom := v\<rparr>\<rparr>"

definition set_right :: "jsval \<Rightarrow> state \<Rightarrow> state" where
  "set_right v s = s\<lparr>w_position := (w_position s)\<lparr>p_right := v\<rparr>\<rparr>"

text \<open>
  The statements of \<^verbatim>\<open>_setPosition\<close> that read \<^verbatim>\<open>obj\<close>. Each reads it in the
  state it runs in:
  \<^verbatim>\<open>this._position.top = obj.top\<close>,
  \<^verbatim>\<open>this._position.left = obj.left\<close>,
  \<^verbatim>\<open>this._position.bottom = this._windowHeight - this._dimension.height - obj.top\<close>,
  \<^verbatim>\<open>this._position.right = this._windowWidth - this._dimension.width - obj.left\<close>.
\<close>

definition top_from_obj :: "pos_arg \<Rightarrow> state \<Rightarrow> state" where
  "top_from_obj obj s = set_top (obj_top obj s) s"

definition left_from_obj :: "pos_arg \<Rightarrow> state \<Rightarrow> state" where
  "left_from_obj obj s = set_left (obj_left obj s) s"

definition bottom_from_obj :: "pos_arg \<Rightarrow> state \<Rightarrow> state" where
  "bottom_from_obj obj s =
     set_bottom (Num (w_windowHeight s - d_height (w_dimension s) - to_number (obj_top obj s))) s"

definition right_from_obj :: "pos_arg \<Rightarrow> state \<Rightarrow> state" where
  "right_from_obj obj s =
     set_right (Num (w_windowWidth s - d_width (w_dimension s) - to_number (obj_left obj s))) s"

text \<open>The two tests under \<^verbatim>\<open>if ( stick )\<close>, each with its two assignments.\<close>

definition stick_vertical :: "pos_arg \<Rightarrow> bool \<Rightarrow> state \<Rightarrow> state" where
  "stick_vertical obj stick s =
     (if stick \<and> isPastHalf ''vertical'' (Some obj) s
      then bottom_from_obj obj (set_top Null s)
      else s)"

definition stick_horizontal :: "pos_arg \<Rightarrow> bool \<Rightarrow> state \<Rightarrow> state" where
  "stick_horizontal obj stick s =
     (if stick \<and> isPastHalf ''horizontal'' (Some obj) s
      then right_from_obj obj (set_left Null s)
      else s)"

text \<open>
  \<^verbatim>\<open>obj = obj || Utils.cloneObject(this._position)\<close>: \<open>None\<close> is a falsy \<^verbatim>\<open>obj\<close>,
  which is replaced by a clone of the stored position; a truthy \<^verbatim>\<open>obj\<close> is used as
  it is.
\<close>

definition obj_or_clone :: "pos_arg option \<Rightarrow> state \<Rightarrow> pos_arg" where
  "obj_or_clone arg s =
     (case arg of Some ob \<Rightarrow> ob | None \<Rightarrow> Fresh (cloneObject (w_position s)))"

text \<open>
  \<^verbatim>\<open>_setPosition(obj, stick)\<close>, statement by statement, the first statement innermost:
  the four assignments, the vertical test, the horizontal test, the update of the DOM.
\<close>

definition setPosition_obj :: "pos_arg \<Rightarrow> bool \<Rightarrow> state \<Rightarrow> state" where
  "setPosition_obj obj stick s =
     updatePosition
       (stick_horizontal obj stick
         (stick_vertical obj stick
           (set_right Null
             (set_bottom Null
               (left_from_obj obj
                 (top_from_obj obj s))))))"

definition setPosition :: "pos_arg option \<Rightarrow> bool \<Rightarrow> state \<Rightarrow> state" where
  "setPosition arg stick s = setPosition_obj (obj_or_clone arg s) stick s"

definition setDimension :: "dim \<Rightarrow> state \<Rightarrow> state" where
  "setDimension obj s =
     (let opt = w_options s;
          w = min (max (d_width obj) (o_minWidth opt)) (o_maxWidth opt);
          h = min (max (d_height obj) (o_minHeight opt)) (o_maxHeight opt)
      in updateDimension (s\<lparr>w_dimension := (w_dimension s)\<lparr>d_width := w, d_height := h\<rparr>\<rparr>))"

subsection \<open>Envelope and persistence\<close>

definition showEnvelope :: "state \<Rightarrow> state" where
  "showEnvelope s =
     (if w_element s = None then s else addClass ''corewm-widget-envelope'' s)"

definition hideEnvelope :: "state \<Rightarrow> state" where
  "hideEnvelope s =
     (if w_element s = None \<or> w_isManipulating s then s
      else removeClass ''corewm-widget-envelope'' s)"

text \<open>
  \<^verbatim>\<open>_saveOptions\<close> builds the object from the current dimension and position and hands
  it to \<^verbatim>\<open>settings.set(null, opts, true)\<close>; the calls are recorded in \<open>writes\<close>.
\<close>

definition save_record :: "state \<Rightarrow> saved" where
  "save_record s =
     \<lparr>sv_width = d_width (w_dimension s), sv_height = d_height (w_dimension s),
      sv_left = p_left (w_position s), sv_top = p_top (w_position s),
      sv_right = p_right (w_position s), sv_bottom = p_bottom (w_position s)\<rparr>"

definition saveOptions :: "state \<Rightarrow> state" where
  "saveOptions s = s\<lparr>writes := writes s @ [save_record s]\<rparr>"

subsection \<open>Pointer handlers of the instance\<close>

text \<open>The hooks \<^verbatim>\<open>onMove\<close>, \<^verbatim>\<open>onResize\<close> and \<^verbatim>\<open>onInited\<close> are empty in this class.\<close>

definition onMouseDown :: "point \<Rightarrow> string \<Rightarrow> state \<Rightarrow> state" where
  "onMouseDown pos action s =
     (let s1 = addClass ''corewm-widget-active'' s
      in if action = ''resize''
         then setPosition (Some (Fresh (getNormalizedPosition s1))) False s1
         else s1)"

text \<open>
  The object a pointer move proposes: \<^verbatim>\<open>{left, top}\<close> for a move and
  \<^verbatim>\<open>{width, height}\<close> for a resize.
\<close>

datatype drag_obj = PosObj lt | DimObj dim

text \<open>
  \<^verbatim>\<open>_onMouseMove\<close> reads \<^verbatim>\<open>left\<close>/\<^verbatim>\<open>top\<close> when the action is \<^verbatim>\<open>'move'\<close> and
  \<^verbatim>\<open>width\<close>/\<^verbatim>\<open>height\<close> otherwise. The bound handler always passes the matching
  object; an object without the fields read would give \<^verbatim>\<open>NaN\<close>, which is outside the
  model, so the two mismatched cases only set the flag.
\<close>

definition onMouseMove :: "drag_obj \<Rightarrow> string \<Rightarrow> state \<Rightarrow> state" where
  "onMouseMove obj action s =
     (let s1 = s\<lparr>w_isManipulating := True\<rparr>
      in if action = ''move''
         then (case obj of
                 PosObj ob \<Rightarrow> setPosition (Some (Fresh ob)) True s1
               | DimObj _ \<Rightarrow> s1)
         else (case obj of DimObj ob \<Rightarrow> setDimension ob s1 | PosObj _ \<Rightarrow> s1))"

definition onMouseUp :: "point \<Rightarrow> string \<Rightarrow> state \<Rightarrow> state" where
  "onMouseUp pos action s =
     (let s1 = s\<lparr>w_isManipulating := False\<rparr>;
          s2 = (clearTimeout (w_resizeTimeout s1) s1)\<lparr>w_resizeTimeout := None\<rparr>;
          s3 = removeClass ''corewm-widget-active'' s2;
          s4 = hideEnvelope s3;
          s5 = (if action = ''resize'' then setPosition None True s4 else s4);
          s6 = (clearTimeout (w_saveTimeout s5) s5)\<lparr>w_saveTimeout := None\<rparr>;
          hs = setTimeout SaveOptions TIMEOUT_SAVE s6
      in (snd hs)\<lparr>w_saveTimeout := Some (fst hs)\<rparr>)"

subsection \<open>The listeners of bindWidgetEvents\<close>

text \<open>
  The closure variables \<^verbatim>\<open>timeout\<close>, \<^verbatim>\<open>start\<close>, \<^verbatim>\<open>position\<close> and
  \<^verbatim>\<open>dimension\<close> are the fields \<open>b_timeout\<close>, \<open>b_start\<close>, \<open>b_position\<close> and
  \<open>b_dimension\<close>; \<open>b_action\<close> is the \<^verbatim>\<open>action\<close> captured by the two window
  listeners that \<^verbatim>\<open>_mouseDown\<close> binds.
\<close>

definition dragObject :: "string \<Rightarrow> point \<Rightarrow> state \<Rightarrow> drag_obj" where
  "dragObject action pos s =
     (let dx = pt_x pos - pt_x (b_start s);
          dy = pt_y pos - pt_y (b_start s)
      in if action = ''move''
         then PosObj \<lparr>l_left = Num (to_number (l_left (b_position s)) + dx),
                      l_top = Num (to_number (l_top (b_position s)) + dy)\<rparr>
         else DimObj
                \<lparr>d_width = (if o_aspect (w_options s) \<noteq> 0
                             then d_width (b_dimension s) + dx
                             else d_width (b_dimension s) + dx),
                 d_height = (if o_aspect (w_options s) \<noteq> 0
                              then d_height (b_dimension s) + dx
                              else d_height (b_dimension s) + dy)\<rparr>)"

definition mouseDown :: "point \<Rightarrow> string \<Rightarrow> state \<Rightarrow> state" where
  "mouseDown pos action s =
     (let s1 = (clearTimeout (b_timeout s) s)\<lparr>b_timeout := None\<rparr>;
          s2 = s1\<lparr>b_start := pos\<rparr>;
          s3 = s2\<lparr>b_position := getNormalizedPosition s2\<rparr>;
          s4 = s3\<lparr>b_dimension := getDimension s3\<rparr>;
          s5 = (bind MouseUpModify (bind MouseMoveModify s4))\<lparr>b_action := action\<rparr>;
          s6 = s5\<lparr>w_windowWidth := innerWidth s5, w_windowHeight := innerHeight s5\<rparr>
      in onMouseDown pos action s6)"

datatype event =
  EvMouseDownElement point | EvMouseDownResize point | EvMouseMove point
  | EvMouseUp point | EvClick | EvMouseOver | EvMouseOut

text \<open>An event runs its listener when that listener is bound, and nothing otherwise.\<close>

definition dispatch :: "event \<Rightarrow> state \<Rightarrow> state" where
  "dispatch ev s =
     (case ev of
        EvMouseDownElement pos \<Rightarrow>
          if MouseDownMove \<in> listeners s then mouseDown pos ''move'' s else s
      | EvMouseDownResize pos \<Rightarrow>
          if MouseDownResize \<in> listeners s then mouseDown pos ''resize'' s else s
      | EvMouseMove pos \<Rightarrow>
          if MouseMoveModify \<in> listeners s
          then onMouseMove (dragObject (b_action s) pos s) (b_action s) s
          else s
      | EvMouseUp pos \<Rightarrow>
          if MouseUpModify \<in> listeners s
          then onMouseUp pos (b_action s) (unbind MouseUpModify (unbind MouseMoveModify s))
          else s
      | EvClick \<Rightarrow>
          if ClickShow \<in> listeners s
          then showEnvelope ((clearTimeout (b_timeout s) s)\<lparr>b_timeout := None\<rparr>)
          else s
      | EvMouseOver \<Rightarrow>
          if MouseOverShow \<in> listeners s
          then (let s1 = (clearTimeout (b_timeout s) s)\<lparr>b_timeout := None\<rparr>;
                    hs = setTimeout ShowEnvelope TIMEOUT_SHOW_ENVELOPE s1
                in (snd hs)\<lparr>b_timeout := Some (fst hs)\<rparr>)
          else s
      | EvMouseOut \<Rightarrow>
          if MouseOutHide \<in> listeners s
          then (let s1 = (clearTimeout (b_timeout s) s)\<lparr>b_timeout := None\<rparr>;
                    hs = setTimeout HideEnvelope TIMEOUT_HIDE_ENVELOPE s1
                in (snd hs)\<lparr>b_timeout := Some (fst hs)\<rparr>)
          else s)"

definition bindWidgetEvents :: "state \<Rightarrow> state" where
  "bindWidgetEvents s =
     (let s1 = s\<lparr>b_timeout := None, b_position := getNormalizedPosition s,
                 b_dimension := getDimension s,
                 b_start := \<lparr>pt_x = 0, pt_y = 0\<rparr>\<rparr>
      in bind MouseOutHide (bind MouseOverShow (bind ClickShow
           (bind MouseDownResize (bind MouseDownMove s1)))))"

subsection \<open>Timers\<close>

definition run_timer :: "timer_action \<Rightarrow> state \<Rightarrow> state" where
  "run_timer act s =
     (case act of
        SaveOptions \<Rightarrow> saveOptions s
      | ShowEnvelope \<Rightarrow> showEnvelope s
      | HideEnvelope \<Rightarrow> hideEnvelope s)"

text \<open>
  The clock moves to \<open>t\<close>: the timers due by then leave the queue and run, earliest
  first.
\<close>

definition advance :: "int \<Rightarrow> state \<Rightarrow> state" where
  "advance t s =
     (let due = filter (\<lambda>x. fst (snd x) \<le> t) (timers s);
          rest = filter (\<lambda>x. \<not> fst (snd x) \<le> t) (timers s)
      in fold (\<lambda>x. run_timer (snd (snd x))) (sort_key (\<lambda>x. fst (snd x)) due)
           (s\<lparr>now := t, timers := rest\<rparr>))"

subsection \<open>Construction and mounting\<close>

text \<open>
  The constructor, in a page whose viewport is \<open>iw\<close> by \<open>ih\<close>, whose clock reads 0
  and where nothing is pending yet.
\<close>

definition Widget :: "caller_opts \<Rightarrow> settings \<Rightarrow> rat \<Rightarrow> rat \<Rightarrow> state" where
  "Widget copts st iw ih =
     (let options = mergeObject DEFAULT_OPTIONS copts
      in \<lparr>w_position =
             \<lparr>p_left = settings_get (s_left st) (o_left options),
              p_top = settings_get (s_top st) (o_top options),
              p_right = settings_get (s_right st) (o_right options),
              p_bottom = settings_get (s_bottom st) (o_bottom options)\<rparr>,
           w_dimension =
             \<lparr>d_width = settings_get (s_width st) (o_width options),
              d_height = settings_get (s_height st) (o_height options)\<rparr>,
           w_options = options,
           w_isManipulating = False,
           w_windowWidth = iw,
           w_windowHeight = ih,
           w_requestId = None,
           w_saveTimeout = None,
           w_resizeTimeout = None,
           w_element = None,
           w_resize = False,
           w_canvas = None,
           w_context = False,
           b_timeout = None,
           b_start = \<lparr>pt_x = 0, pt_y = 0\<rparr>,
           b_position = \<lparr>l_left = Null, l_top = Null\<rparr>,
           b_dimension = \<lparr>d_width = 0, d_height = 0\<rparr>,
           b_action = [],
           a_fps = 0,
           a_loop = None,
           listeners = {},
           now = 0,
           innerWidth = iw,
           innerHeight = ih,
           timers = [],
           frames = [],
           next_handle = 1,
           writes = [],
           renders = 0\<rparr>)"

definition createElement :: element where
  "createElement =
     \<lparr>el_left = Unset, el_right = Unset, el_top = Unset, el_bottom = Unset,
      el_width = Unset, el_height = Unset, el_classes = {}\<rparr>"

definition init :: "state \<Rightarrow> state" where
  "init s =
     (let s1 = s\<lparr>w_windowWidth := innerWidth s, w_windowHeight := innerHeight s\<rparr>;
          s2 = s1\<lparr>w_element := Some createElement, w_resize := True\<rparr>;
          s3 = (if o_canvas (w_options s2)
                then s2\<lparr>w_canvas :=
                          Some \<lparr>cv_width = (if d_width (w_dimension s2) \<noteq> 0
                                             then d_width (w_dimension s2) else MIN_WIDTH),
                                cv_height = (if d_height (w_dimension s2) \<noteq> 0
                                              then d_height (w_dimension s2) else MIN_HEIGHT)\<rparr>,
                        w_context := True\<rparr>
                else s2);
          s4 = bindWidgetEvents s3
      in updateDimension (updatePosition s4))"

subsection \<open>The animation loop\<close>

text \<open>
  The variables \<^verbatim>\<open>fpsInterval\<close> and \<^verbatim>\<open>then\<close> of \<^verbatim>\<open>_inited\<close> are the pair in
  \<open>a_loop\<close>, unset until the first frame callback runs; \<^verbatim>\<open>fps\<close> is \<open>a_fps\<close>. Each
  call of \<^verbatim>\<open>onRender\<close> adds one to \<open>renders\<close>. In \<^verbatim>\<open>animate\<close> the next frame
  is requested first; then \<^verbatim>\<open>elapsed = now - then\<close> is compared with the interval
  (with the variables still undefined the comparison is false), and on a render
  \<^verbatim>\<open>then = now - (elapsed % fpsInterval)\<close>.
\<close>

fun animate_tick :: "(interval \<times> rat) option \<Rightarrow> state \<Rightarrow> state" where
  "animate_tick None s = s"
| "animate_tick (Some (fpsInterval, then_t)) s =
     (if js_gt (js_sub (of_int (now s)) then_t) fpsInterval
      then s\<lparr>a_loop := Some (fpsInterval,
                               js_sub (of_int (now s))
                                 (js_mod (js_sub (of_int (now s)) then_t) fpsInterval)),
             renders := Suc (renders s)\<rparr>
      else s)"

definition animate_body :: "state \<Rightarrow> state" where
  "animate_body s = animate_tick (a_loop s) s"

definition animate :: "state \<Rightarrow> state" where
  "animate s = animate_body (snd (requestAnimationFrame Animate s))"

definition inited :: "state \<Rightarrow> state" where
  "inited s =
     (case w_canvas s of
        None \<Rightarrow> s
      | Some c \<Rightarrow>
          (let fps = min (o_frequency (w_options s)) 1;
               hs = requestAnimationFrame StartLoop (s\<lparr>a_fps := fps\<rparr>)
           in (snd hs)\<lparr>w_requestId := Some (fst hs)\<rparr>))"

definition run_frame :: "frame_action \<Rightarrow> state \<Rightarrow> state" where
  "run_frame act s =
     (case act of
        StartLoop \<Rightarrow> animate (s\<lparr>a_loop := Some (js_div 1000 (a_fps s), of_int (now s))\<rparr>)
      | Animate \<Rightarrow> animate s)"

text \<open>
  The browser paints a frame at time \<open>t\<close>: the callbacks requested so far run once, and
  what they request waits for the next frame.
\<close>

definition frame :: "int \<Rightarrow> state \<Rightarrow> state" where
  "frame t s = fold (\<lambda>f. run_frame (snd f)) (frames s) (s\<lparr>now := t, frames := []\<rparr>)"

subsection \<open>Destruction\<close>

text \<open>
  A handle field holds \<^verbatim>\<open>null\<close> or \<^verbatim>\<open>undefined\<close> (\<open>None\<close>) or a handle;
  the test \<^verbatim>\<open>if ( this._requestId )\<close> would also fail on the handle 0.
\<close>

definition destroy :: "state \<Rightarrow> state" where
  "destroy s =
     (let s1 = unbind MouseOutHide (unbind MouseOverShow (unbind ClickShow
                 (unbind MouseDownMove (unbind MouseDownResize
                   (unbind MouseUpModify (unbind MouseMoveModify s))))));
          s2 = (clearTimeout (w_saveTimeout s1) s1)\<lparr>w_saveTimeout := None\<rparr>;
          s3 = (case w_requestId s2 of
                  None \<Rightarrow> s2
                | Some h \<Rightarrow> if h \<noteq> 0 then cancelAnimationFrame h s2 else s2);
          s4 = s3\<lparr>w_requestId := None\<rparr>
      in s4\<lparr>w_canvas := None, w_resize := False, w_element := None, w_context := False\<rparr>)"

subsection \<open>Predicates used by the statements\<close>

text \<open>The timers that will call \<^verbatim>\<open>_saveOptions\<close>.\<close>

definition save_timers :: "state \<Rightarrow> (nat \<times> int \<times> timer_action) list" where
  "save_timers s = filter (\<lambda>x. snd (snd x) = SaveOptions) (timers s)"

text \<open>
  The only pending save timer, if any, is the one whose handle \<^verbatim>\<open>_saveTimeout\<close> holds.
\<close>

definition save_inv :: "state \<Rightarrow> bool" where
  "save_inv s = (\<forall>x \<in> set (save_timers s). w_saveTimeout s = Some (fst x))"

text \<open>
  What the host and the browser do to a widget: the lifecycle calls, an event, time
  passing, a frame being painted.
\<close>

datatype host_op =
  OpInit | OpInited | OpDestroy | OpEvent event | OpAdvance int | OpFrame int

fun host_step :: "host_op \<Rightarrow> state \<Rightarrow> state" where
  "host_step OpInit s = init s"
| "host_step OpInited s = inited s"
| "host_step OpDestroy s = destroy s"
| "host_step (OpEvent ev) s = dispatch ev s"
| "host_step (OpAdvance t) s = advance t s"
| "host_step (OpFrame t) s = frame t s"

text \<open>The operations that move the clock, kept in_window a window of time.\<close>

fun in_window :: "int \<Rightarrow> int \<Rightarrow> host_op \<Rightarrow> bool" where
  "in_window lo hi (OpAdvance t) = (lo \<le> t \<and> t < hi)"
| "in_window lo hi (OpFrame t) = (lo \<le> t \<and> t < hi)"
| "in_window lo hi OpInit = True"
| "in_window lo hi OpInited = True"
| "in_window lo hi OpDestroy = True"
| "in_window lo hi (OpEvent ev) = True"

text \<open>
  A state less than 500 ms after a pointer-up at time \<open>lo\<close>, with nothing written since:
  the clock is inside the window and no save timer is due before the window ends.
\<close>

definition settling :: "int \<Rightarrow> saved list \<Rightarrow> state \<Rightarrow> bool" where
  "settling lo w0 x =
     (save_inv x \<and> writes x = w0 \<and> lo \<le> now x \<and> now x < lo + 500
      \<and> (\<forall>e \<in> set (save_timers x). lo + 500 \<le> fst (snd e)))"

subsection \<open>Concrete widgets\<close>

text \<open>
  The widget of the specification's scenario: viewport 1024 by 768, dimension 200 by 150,
  anchored at left 100 and top 100, mounted.
\<close>

definition scenario_opts :: caller_opts where
  "scenario_opts =
     no_opts\<lparr>c_width := Some 200, c_height := Some 150,
             c_left := Some (Num 100), c_top := Some (Num 100),
             c_right := Some Null, c_bottom := Some Null\<rparr>"

definition scenario :: state where
  "scenario = init (Widget scenario_opts no_settings 1024 768)"

text \<open>The scenario's drag: pointer down on the widget and a move by (+500, +0).\<close>

definition scenario_dragged :: state where
  "scenario_dragged =
     dispatch (EvMouseMove \<lparr>pt_x = 510, pt_y = 10\<rparr>)
       (dispatch (EvMouseDownElement \<lparr>pt_x = 10, pt_y = 10\<rparr>) scenario)"

text \<open>
  The same widget dragged by (+724, +518) into the bottom right corner of the viewport
  and released there, and then with the pointer pressed on its resize handle.
\<close>

definition flush_corner :: state where
  "flush_corner =
     dispatch (EvMouseUp \<lparr>pt_x = 734, pt_y = 528\<rparr>)
       (dispatch (EvMouseMove \<lparr>pt_x = 734, pt_y = 528\<rparr>)
         (dispatch (EvMouseDownElement \<lparr>pt_x = 10, pt_y = 10\<rparr>) scenario))"

definition flush_corner_resizing :: state where
  "flush_corner_resizing =
     dispatch (EvMouseDownResize \<lparr>pt_x = 1020, pt_y = 760\<rparr>) flush_corner"



text \<open>Exactly one anchor of each axis is not \<^verbatim>\<open>null\<close>.\<close>

definition one_anchor :: "pos \<Rightarrow> bool" where
  "one_anchor p =
     (((p_left p \<noteq> Null) \<noteq> (p_right p \<noteq> Null))
      \<and> ((p_top p \<noteq> Null) \<noteq> (p_bottom p \<noteq> Null)))"

text \<open>The scenario widget dragged by (+500, +400), into the bottom right quarter.\<close>

definition quarter_dragged :: state where
  "quarter_dragged =
     dispatch (EvMouseMove \<lparr>pt_x = 510, pt_y = 410\<rparr>)
       (dispatch (EvMouseDownElement \<lparr>pt_x = 10, pt_y = 10\<rparr>) scenario)"

text \<open>The scenario widget, and one with the aspect option set, held by the resize handle.\<close>

definition scenario_resizing :: state where
  "scenario_resizing = dispatch (EvMouseDownResize \<lparr>pt_x = 300, pt_y = 250\<rparr>) scenario"

definition aspect_resizing :: state where
  "aspect_resizing =
     dispatch (EvMouseDownResize \<lparr>pt_x = 300, pt_y = 250\<rparr>)
       (init (Widget (scenario_opts\<lparr>c_aspect := Some 1\<rparr>) no_settings 1024 768))"

text \<open>A canvas widget with the given frequency, mounted and started.\<close>

definition canvas_widget :: "rat \<Rightarrow> state" where
  "canvas_widget f =
     inited (init (Widget (no_opts\<lparr>c_canvas := Some True, c_frequency := Some f\<rparr>)
                     no_settings 1024 768))"

text \<open>A loop that cannot render: zero frames per second, an infinite interval.\<close>

definition stalled :: "state \<Rightarrow> bool" where
  "stalled s =
     (a_fps s = 0 \<and> (case a_loop s of None \<Rightarrow> True | Some l \<Rightarrow> fst l = Infinity))"

text \<open>The scenario widget placed at left 600 and top 400.\<close>

definition far_quarter :: state where
  "far_quarter =
     init (Widget (scenario_opts\<lparr>c_left := Some (Num 600), c_top := Some (Num 400)\<rparr>)
             no_settings 1024 768)"

text \<open>
  The scenario's drag released at time 0, and two ways to go on. In the first the widget
  is pressed again at 100 ms and moved at 300 ms, the pointer still down. In the second it
  is pressed again at 100 ms, held, moved back by 100 and released at 600 ms, and the
  clock then runs to 1100 ms.
\<close>

definition scenario_released :: state where
  "scenario_released = dispatch (EvMouseUp \<lparr>pt_x = 510, pt_y = 10\<rparr>) scenario_dragged"

definition quick_second_drag :: "host_op list" where
  "quick_second_drag =
     [OpAdvance 100, OpEvent (EvMouseDownElement \<lparr>pt_x = 510, pt_y = 10\<rparr>),
      OpAdvance 300, OpEvent (EvMouseMove \<lparr>pt_x = 410, pt_y = 10\<rparr>)]"

definition held_second_drag :: "host_op list" where
  "held_second_drag =
     [OpAdvance 100, OpEvent (EvMouseDownElement \<lparr>pt_x = 510, pt_y = 10\<rparr>),
      OpAdvance 600, OpEvent (EvMouseMove \<lparr>pt_x = 410, pt_y = 10\<rparr>),
      OpEvent (EvMouseUp \<lparr>pt_x = 410, pt_y = 10\<rparr>), OpAdvance 1100]"

section \<open>Properties\<close>

subsection \<open>The concrete widgets, evaluated\<close>

lemmas geometry_defs =
  setPosition_def setPosition_obj_def obj_or_clone_def stick_horizontal_def stick_vertical_def
  top_from_obj_def left_from_obj_def bottom_from_obj_def right_from_obj_def
  set_top_def set_left_def set_bottom_def set_right_def
  isPastHalf_def updatePosition_def cloneObject_def obj_left_def obj_top_def


lemma scenario_bounds:
  "o_minWidth (w_options scenario) = 64"
  "o_maxWidth (w_options scenario) = 500"
  "o_minHeight (w_options scenario) = 64"
  "o_maxHeight (w_options scenario) = 500"
  by code_simp+

lemma quarter_dragged_geometry:
  "w_windowWidth quarter_dragged = 1024"
  "w_windowHeight quarter_dragged = 768"
  "w_dimension quarter_dragged = \<lparr>d_width = 200, d_height = 150\<rparr>"
  "w_position quarter_dragged =
     \<lparr>p_left = Null, p_top = Null, p_right = Num 224, p_bottom = Num 118\<rparr>"
  by code_simp+

lemma quarter_dragged_element: "w_element quarter_dragged \<noteq> None"
  by code_simp

lemma far_quarter_geometry:
  "w_windowWidth far_quarter = 1024"
  "w_windowHeight far_quarter = 768"
  "w_dimension far_quarter = \<lparr>d_width = 200, d_height = 150\<rparr>"
  "w_position far_quarter =
     \<lparr>p_left = Num 600, p_top = Num 400, p_right = Null, p_bottom = Null\<rparr>"
  by code_simp+

lemma flush_corner_geometry:
  "w_windowWidth flush_corner = 1024"
  "w_windowHeight flush_corner = 768"
  "w_dimension flush_corner = \<lparr>d_width = 200, d_height = 150\<rparr>"
  "w_position flush_corner =
     \<lparr>p_left = Null, p_top = Null, p_right = Num 0, p_bottom = Num 0\<rparr>"
  by code_simp+

text \<open>
  Pressing the resize handle of the widget in the corner stores the normalized position,
  which has lost both coordinates; releasing it calls \<^verbatim>\<open>_setPosition(null, true)\<close> on
  that state, and the widget is then styled with \<^verbatim>\<open>'nullpx'\<close>.
\<close>

lemma flush_corner_resizing_position:
  "w_position flush_corner_resizing =
     \<lparr>p_left = Null, p_top = Null, p_right = Null, p_bottom = Null\<rparr>"
  by code_simp

lemma flush_corner_resize_released:
  "w_position (dispatch (EvMouseUp \<lparr>pt_x = 1020, pt_y = 760\<rparr>) flush_corner_resizing) =
     w_position (setPosition None True flush_corner_resizing)"
  "map_option (\<lambda>e. (el_left e, el_right e, el_top e, el_bottom e))
     (w_element (dispatch (EvMouseUp \<lparr>pt_x = 1020, pt_y = 760\<rparr>) flush_corner_resizing)) =
     Some (Px Null, Auto, Px Null, Auto)"
  by code_simp+

lemma resizing_facts:
  "b_dimension aspect_resizing = \<lparr>d_width = 200, d_height = 150\<rparr>"
  "b_start aspect_resizing = \<lparr>pt_x = 300, pt_y = 250\<rparr>"
  "o_aspect (w_options aspect_resizing) = 1"
  "b_dimension scenario_resizing = \<lparr>d_width = 200, d_height = 150\<rparr>"
  "b_start scenario_resizing = \<lparr>pt_x = 300, pt_y = 250\<rparr>"
  "o_aspect (w_options scenario_resizing) = 0"
  "b_action scenario_resizing = ''resize''"
  "MouseMoveModify \<in> listeners scenario_resizing"
  by code_simp+

lemma scenario_dragged_facts:
  "save_inv scenario_dragged"
  "next_handle scenario_dragged = 1"
  "now scenario_dragged = 0"
  "writes scenario_dragged = []"
  "w_dimension scenario_dragged = \<lparr>d_width = 200, d_height = 150\<rparr>"
  "w_position (onMouseUp \<lparr>pt_x = 510, pt_y = 10\<rparr> ''move'' scenario_dragged) =
     \<lparr>p_left = Null, p_top = Num 100, p_right = Num 224, p_bottom = Null\<rparr>"
  "save_record (onMouseUp \<lparr>pt_x = 510, pt_y = 10\<rparr> ''move'' scenario_dragged) =
     \<lparr>sv_width = 200, sv_height = 150, sv_left = Null, sv_top = Num 100,
      sv_right = Num 224, sv_bottom = Null\<rparr>"
  by code_simp+

lemma quick_second_drag_facts:
  "\<forall>a \<in> set quick_second_drag. in_window 0 500 a"
  "now (fold host_step quick_second_drag
          (onMouseUp \<lparr>pt_x = 510, pt_y = 10\<rparr> ''move'' scenario_dragged)) = 300"
  "save_record
     (onMouseUp \<lparr>pt_x = 410, pt_y = 10\<rparr> ''move''
       (fold host_step quick_second_drag
         (onMouseUp \<lparr>pt_x = 510, pt_y = 10\<rparr> ''move'' scenario_dragged))) =
     \<lparr>sv_width = 200, sv_height = 150, sv_left = Null, sv_top = Num 100,
      sv_right = Num 324, sv_bottom = Null\<rparr>"
  by code_simp+

subsection \<open>What each operation leaves alone\<close>

lemma class_ops_fields [simp]:
  "timers (addClass c s) = timers s"
  "timers (removeClass c s) = timers s"
  "w_saveTimeout (addClass c s) = w_saveTimeout s"
  "w_saveTimeout (removeClass c s) = w_saveTimeout s"
  "w_resizeTimeout (addClass c s) = w_resizeTimeout s"
  "w_resizeTimeout (removeClass c s) = w_resizeTimeout s"
  "next_handle (addClass c s) = next_handle s"
  "next_handle (removeClass c s) = next_handle s"
  "now (addClass c s) = now s"
  "now (removeClass c s) = now s"
  "writes (addClass c s) = writes s"
  "writes (removeClass c s) = writes s"
  "w_position (addClass c s) = w_position s"
  "w_position (removeClass c s) = w_position s"
  "w_dimension (addClass c s) = w_dimension s"
  "w_dimension (removeClass c s) = w_dimension s"
  by (simp_all add: addClass_def removeClass_def split: option.split)

lemma envelope_fields [simp]:
  "timers (showEnvelope s) = timers s"
  "timers (hideEnvelope s) = timers s"
  "w_saveTimeout (showEnvelope s) = w_saveTimeout s"
  "w_saveTimeout (hideEnvelope s) = w_saveTimeout s"
  "w_resizeTimeout (showEnvelope s) = w_resizeTimeout s"
  "w_resizeTimeout (hideEnvelope s) = w_resizeTimeout s"
  "next_handle (showEnvelope s) = next_handle s"
  "next_handle (hideEnvelope s) = next_handle s"
  "now (showEnvelope s) = now s"
  "now (hideEnvelope s) = now s"
  "writes (showEnvelope s) = writes s"
  "writes (hideEnvelope s) = writes s"
  "w_position (showEnvelope s) = w_position s"
  "w_position (hideEnvelope s) = w_position s"
  "w_dimension (showEnvelope s) = w_dimension s"
  "w_dimension (hideEnvelope s) = w_dimension s"
  by (simp_all add: showEnvelope_def hideEnvelope_def)

lemma update_fields [simp]:
  "timers (updatePosition s) = timers s"
  "timers (updateDimension s) = timers s"
  "w_saveTimeout (updatePosition s) = w_saveTimeout s"
  "w_saveTimeout (updateDimension s) = w_saveTimeout s"
  "now (updatePosition s) = now s"
  "now (updateDimension s) = now s"
  "writes (updatePosition s) = writes s"
  "writes (updateDimension s) = writes s"
  by (simp_all add: updatePosition_def updateDimension_def Let_def split: option.split)

lemma setPosition_fields [simp]:
  "timers (setPosition arg stick s) = timers s"
  "w_saveTimeout (setPosition arg stick s) = w_saveTimeout s"
  "w_resizeTimeout (setPosition arg stick s) = w_resizeTimeout s"
  "next_handle (setPosition arg stick s) = next_handle s"
  "now (setPosition arg stick s) = now s"
  "writes (setPosition arg stick s) = writes s"
  "w_dimension (setPosition arg stick s) = w_dimension s"
  "b_dimension (setPosition arg stick s) = b_dimension s"
  "b_start (setPosition arg stick s) = b_start s"
  by (simp_all add: geometry_defs Let_def split: option.split)

lemma setDimension_fields [simp]:
  "timers (setDimension obj s) = timers s"
  "w_saveTimeout (setDimension obj s) = w_saveTimeout s"
  "now (setDimension obj s) = now s"
  "writes (setDimension obj s) = writes s"
  "b_dimension (setDimension obj s) = b_dimension s"
  "b_start (setDimension obj s) = b_start s"
  by (simp_all add: setDimension_def updateDimension_def Let_def split: option.split)

lemma bind_fields [simp]:
  "timers (bind l s) = timers s"
  "timers (unbind l s) = timers s"
  "w_saveTimeout (bind l s) = w_saveTimeout s"
  "w_saveTimeout (unbind l s) = w_saveTimeout s"
  "w_resizeTimeout (bind l s) = w_resizeTimeout s"
  "w_resizeTimeout (unbind l s) = w_resizeTimeout s"
  "next_handle (bind l s) = next_handle s"
  "next_handle (unbind l s) = next_handle s"
  "now (bind l s) = now s"
  "now (unbind l s) = now s"
  "writes (bind l s) = writes s"
  "writes (unbind l s) = writes s"
  by (simp_all add: bind_def unbind_def)

lemma mouseDown_fields:
  "timers (mouseDown p a s) = filter (\<lambda>t. Some (fst t) \<noteq> b_timeout s) (timers s)"
  "w_saveTimeout (mouseDown p a s) = w_saveTimeout s"
  "now (mouseDown p a s) = now s"
  "writes (mouseDown p a s) = writes s"
  by (simp_all add: mouseDown_def onMouseDown_def clearTimeout_def Let_def)

lemma onMouseMove_fields:
  "timers (onMouseMove obj a s) = timers s"
  "w_saveTimeout (onMouseMove obj a s) = w_saveTimeout s"
  "now (onMouseMove obj a s) = now s"
  "writes (onMouseMove obj a s) = writes s"
  by (simp_all add: onMouseMove_def Let_def split: drag_obj.split)

lemma onMouseUp_timers:
  "timers (onMouseUp pos action s) =
     filter (\<lambda>t. Some (fst t) \<noteq> w_saveTimeout s)
       (filter (\<lambda>t. Some (fst t) \<noteq> w_resizeTimeout s) (timers s))
     @ [(next_handle s, now s + 500, SaveOptions)]"
  by (simp add: onMouseUp_def clearTimeout_def setTimeout_def TIMEOUT_SAVE_def Let_def)

lemma onMouseUp_fields:
  "w_saveTimeout (onMouseUp pos action s) = Some (next_handle s)"
  "now (onMouseUp pos action s) = now s"
  "writes (onMouseUp pos action s) = writes s"
  by (simp_all add: onMouseUp_def clearTimeout_def setTimeout_def TIMEOUT_SAVE_def Let_def)

lemma dispatch_now_writes:
  "now (dispatch ev s) = now s"
  "writes (dispatch ev s) = writes s"
  by (cases ev; simp add: dispatch_def mouseDown_fields onMouseMove_fields onMouseUp_fields
        clearTimeout_def setTimeout_def Let_def)+

subsection \<open>Construction and styles\<close>

lemma Widget_position:
  "w_position (Widget c st iw ih) =
     \<lparr>p_left = pick (s_left st) (pick (c_left c) (Num (- 1))),
      p_top = pick (s_top st) (pick (c_top c) (Num 0)),
      p_right = pick (s_right st) (pick (c_right c) (Num (- 1))),
      p_bottom = pick (s_bottom st) (pick (c_bottom c) (Num 0))\<rparr>"
  by (simp add: Widget_def mergeObject_def DEFAULT_OPTIONS_def settings_get_def Let_def)

lemma updatePosition_element:
  "w_element (updatePosition s) =
     map_option
       (\<lambda>e. e\<lparr>el_left := (if p_right (w_position s) \<noteq> Null then Auto
                             else Px (p_left (w_position s))),
                el_right := (if p_right (w_position s) \<noteq> Null then Px (p_right (w_position s))
                              else Auto),
                el_top := (if p_bottom (w_position s) \<noteq> Null then Auto
                            else Px (p_top (w_position s))),
                el_bottom := (if p_bottom (w_position s) \<noteq> Null
                               then Px (p_bottom (w_position s)) else Auto)\<rparr>)
       (w_element s)"
  by (simp add: updatePosition_def Let_def split: option.split)

lemma updateDimension_element:
  "w_element (updateDimension s) =
     map_option
       (\<lambda>e. e\<lparr>el_width := Px (Num (d_width (w_dimension s))),
                el_height := Px (Num (d_height (w_dimension s)))\<rparr>)
       (w_element s)"
  by (simp add: updateDimension_def Let_def split: option.split)

lemma bindWidgetEvents_fields:
  "w_element (bindWidgetEvents s) = w_element s"
  "w_position (bindWidgetEvents s) = w_position s"
  by (simp_all add: bindWidgetEvents_def bind_def Let_def)

text \<open>Mounting styles the new element from the stored position.\<close>

lemma init_styles:
  "map_option (\<lambda>e. (el_left e, el_right e, el_top e, el_bottom e)) (w_element (init s)) =
     Some (if p_right (w_position s) \<noteq> Null then Auto else Px (p_left (w_position s)),
           if p_right (w_position s) \<noteq> Null then Px (p_right (w_position s)) else Auto,
           if p_bottom (w_position s) \<noteq> Null then Auto else Px (p_top (w_position s)),
           if p_bottom (w_position s) \<noteq> Null then Px (p_bottom (w_position s)) else Auto)"
  by (simp add: init_def Let_def updateDimension_element updatePosition_element
        bindWidgetEvents_fields)

lemma empty_facts:
  "c_left no_opts = None"
  "c_right no_opts = None"
  "c_top no_opts = None"
  "c_bottom no_opts = None"
  "s_left no_settings = None"
  "s_right no_settings = None"
  "s_top no_settings = None"
  "s_bottom no_settings = None"
  by (simp_all add: no_opts_def no_settings_def)

subsection \<open>Timers and writes\<close>

lemma run_timer_save_record [simp]: "save_record (run_timer a s) = save_record s"
  by (cases a) (simp_all add: run_timer_def save_record_def saveOptions_def)

lemma writes_run_timer:
  "writes (run_timer a s) = writes s @ (if a = SaveOptions then [save_record s] else [])"
  by (cases a) (simp_all add: run_timer_def saveOptions_def)

text \<open>Running a batch of timers writes once for every save timer in it.\<close>

lemma writes_fold_run_timer:
  "writes (fold (\<lambda>x. run_timer (snd (snd x))) xs s) =
     writes s @ replicate (length (filter (\<lambda>x. snd (snd x) = SaveOptions) xs)) (save_record s)"
proof (induction xs arbitrary: s)
  case Nil
  then show ?case by simp
next
  case (Cons x xs)
  show ?case
    by (simp add: Cons.IH writes_run_timer replicate_app_Cons_same)
qed

lemma fold_run_timer_fields:
  "timers (fold (\<lambda>x. run_timer (snd (snd x))) xs s) = timers s"
  "w_saveTimeout (fold (\<lambda>x. run_timer (snd (snd x))) xs s) = w_saveTimeout s"
  "now (fold (\<lambda>x. run_timer (snd (snd x))) xs s) = now s"
  by (induction xs arbitrary: s)
     (simp_all add: run_timer_def saveOptions_def split: timer_action.split)

lemma writes_advance:
  "writes (advance t s) =
     writes s @ replicate (length (filter (\<lambda>x. fst (snd x) \<le> t) (save_timers s)))
                  (save_record s)"
proof -
  have "length (filter (\<lambda>x. snd (snd x) = SaveOptions)
                 (sort_key (\<lambda>x. fst (snd x)) (filter (\<lambda>x. fst (snd x) \<le> t) (timers s)))) =
        length (filter (\<lambda>x. fst (snd x) \<le> t) (save_timers s))"
    by (simp add: filter_sort save_timers_def conj_commute)
  then show ?thesis
    by (simp add: advance_def Let_def writes_fold_run_timer save_record_def)
qed

lemma advance_fields:
  "timers (advance t s) = filter (\<lambda>x. \<not> fst (snd x) \<le> t) (timers s)"
  "w_saveTimeout (advance t s) = w_saveTimeout s"
  "now (advance t s) = t"
  by (simp_all add: advance_def Let_def fold_run_timer_fields)

subsection \<open>The save timer invariant\<close>

lemma save_inv_timers:
  assumes "save_inv s"
  shows "\<forall>x \<in> set (timers s). snd (snd x) = SaveOptions \<longrightarrow> Some (fst x) = w_saveTimeout s"
  using assms by (fastforce simp add: save_inv_def save_timers_def)

lemma onMouseUp_save_timers:
  assumes "save_inv s"
  shows "save_timers (onMouseUp pos action s) = [(next_handle s, now s + 500, SaveOptions)]"
proof -
  have "filter (\<lambda>x. snd (snd x) = SaveOptions)
          (filter (\<lambda>t. Some (fst t) \<noteq> w_saveTimeout s)
            (filter (\<lambda>t. Some (fst t) \<noteq> w_resizeTimeout s) (timers s))) = []"
    using save_inv_timers [OF assms] by (auto simp add: filter_empty_conv)
  then show ?thesis
    by (simp add: save_timers_def onMouseUp_timers)
qed

lemma save_inv_Widget: "save_inv (Widget c st iw ih)"
  by (simp add: save_inv_def save_timers_def Widget_def Let_def)

lemma save_inv_init: "save_inv s \<Longrightarrow> save_inv (init s)"
  by (simp add: save_inv_def save_timers_def init_def bindWidgetEvents_def Let_def)

lemma save_inv_inited: "save_inv s \<Longrightarrow> save_inv (inited s)"
  by (simp add: save_inv_def save_timers_def inited_def requestAnimationFrame_def Let_def
        split: option.split)

lemma save_inv_bind [simp]:
  "save_inv (bind l s) = save_inv s"
  "save_inv (unbind l s) = save_inv s"
  by (simp_all add: save_inv_def save_timers_def)

lemma save_inv_onMouseUp: "save_inv s \<Longrightarrow> save_inv (onMouseUp pos action s)"
  by (simp add: save_inv_def [of "onMouseUp pos action s"] onMouseUp_save_timers
        onMouseUp_fields)

lemma save_inv_dispatch: "save_inv s \<Longrightarrow> save_inv (dispatch ev s)"
proof (cases ev)
  case (EvMouseUp p)
  then show "save_inv s \<Longrightarrow> ?thesis"
    by (simp add: dispatch_def save_inv_onMouseUp)
qed (auto simp add: dispatch_def save_inv_def save_timers_def mouseDown_fields
       onMouseMove_fields clearTimeout_def setTimeout_def Let_def)

lemma fold_dispatch:
  "save_inv s \<Longrightarrow> save_inv (fold dispatch evs s)"
  "now (fold dispatch evs s) = now s"
  "writes (fold dispatch evs s) = writes s"
  by (induction evs arbitrary: s) (simp_all add: save_inv_dispatch dispatch_now_writes)

lemma save_inv_advance: "save_inv s \<Longrightarrow> save_inv (advance t s)"
  by (auto simp add: save_inv_def save_timers_def advance_fields)

lemma animate_tick_fields:
  "timers (animate_tick l s) = timers s"
  "w_saveTimeout (animate_tick l s) = w_saveTimeout s"
  "writes (animate_tick l s) = writes s"
  "now (animate_tick l s) = now s"
  by (induction l s rule: animate_tick.induct) simp_all

lemma run_frame_fields:
  "timers (run_frame a s) = timers s"
  "w_saveTimeout (run_frame a s) = w_saveTimeout s"
  "writes (run_frame a s) = writes s"
  "now (run_frame a s) = now s"
  by (simp_all add: run_frame_def animate_def animate_body_def animate_tick_fields
        requestAnimationFrame_def split: frame_action.split)

lemma fold_run_frame_fields:
  "timers (fold (\<lambda>f. run_frame (snd f)) fs s) = timers s"
  "w_saveTimeout (fold (\<lambda>f. run_frame (snd f)) fs s) = w_saveTimeout s"
  "writes (fold (\<lambda>f. run_frame (snd f)) fs s) = writes s"
  "now (fold (\<lambda>f. run_frame (snd f)) fs s) = now s"
  by (induction fs arbitrary: s) (simp_all add: run_frame_fields)

lemma frame_fields:
  "timers (frame t s) = timers s"
  "w_saveTimeout (frame t s) = w_saveTimeout s"
  "writes (frame t s) = writes s"
  "now (frame t s) = t"
  by (simp_all add: frame_def fold_run_frame_fields)

lemma save_inv_frame: "save_inv s \<Longrightarrow> save_inv (frame t s)"
  by (simp add: save_inv_def save_timers_def frame_fields)

lemma init_fields:
  "timers (init s) = timers s"
  "w_saveTimeout (init s) = w_saveTimeout s"
  "writes (init s) = writes s"
  "now (init s) = now s"
  by (simp_all add: init_def bindWidgetEvents_def Let_def)

lemma inited_fields:
  "timers (inited s) = timers s"
  "w_saveTimeout (inited s) = w_saveTimeout s"
  "writes (inited s) = writes s"
  "now (inited s) = now s"
  by (simp_all add: inited_def requestAnimationFrame_def Let_def split: option.split)

lemma pointer_up_writes:
  assumes "save_inv s"
  shows "t < now s + 500 \<Longrightarrow> writes (advance t (onMouseUp pos action s)) = writes s"
    and "now s + 500 \<le> t \<Longrightarrow>
           writes (advance t (onMouseUp pos action s)) =
             writes s @ [save_record (onMouseUp pos action s)]"
  using assms by (simp_all add: onMouseUp_save_timers onMouseUp_fields writes_advance)

subsection \<open>Destruction\<close>

lemma destroy_timers:
  "timers (destroy s) = filter (\<lambda>t. Some (fst t) \<noteq> w_saveTimeout s) (timers s)"
  "w_saveTimeout (destroy s) = None"
  "writes (destroy s) = writes s"
  "now (destroy s) = now s"
  by (simp_all add: destroy_def clearTimeout_def cancelAnimationFrame_def Let_def
        split: option.split)

text \<open>Only the request whose handle \<^verbatim>\<open>_requestId\<close> holds is cancelled.\<close>

lemma destroy_frames:
  "frames (destroy s) =
     (case w_requestId s of
        None \<Rightarrow> frames s
      | Some h \<Rightarrow> if h \<noteq> 0 then filter (\<lambda>f. fst f \<noteq> h) (frames s) else frames s)"
  by (simp add: destroy_def clearTimeout_def cancelAnimationFrame_def unbind_def Let_def
        split: option.split)

lemma destroy_references:
  "w_requestId (destroy s) = None"
  "w_canvas (destroy s) = None"
  "\<not> w_resize (destroy s)"
  "w_element (destroy s) = None"
  "\<not> w_context (destroy s)"
  "listeners (destroy s) = {}"
  by (auto simp add: destroy_def clearTimeout_def cancelAnimationFrame_def unbind_def Let_def
        split: option.split intro: listener.exhaust)

lemma destroy_no_save_timer:
  assumes "save_inv s"
  shows "save_timers (destroy s) = []"
  using save_inv_timers [OF assms]
  by (auto simp add: save_timers_def destroy_timers filter_empty_conv)

text \<open>After \<^verbatim>\<open>destroy\<close> no settings write fires, however long one waits.\<close>

lemma destroy_no_write:
  "save_inv s \<Longrightarrow> writes (advance t (destroy s)) = writes s"
  by (simp add: writes_advance destroy_no_save_timer destroy_timers)

lemma save_inv_destroy: "save_inv s \<Longrightarrow> save_inv (destroy s)"
  by (simp add: save_inv_def [of "destroy s"] destroy_no_save_timer)

lemma save_inv_host_step: "save_inv s \<Longrightarrow> save_inv (host_step a s)"
  by (cases a)
     (simp_all add: save_inv_init save_inv_inited save_inv_destroy save_inv_dispatch
        save_inv_advance save_inv_frame)

text \<open>The invariant holds in every state a widget can be brought into.\<close>

lemma save_inv_reachable: "save_inv (fold host_step ops (Widget c st iw ih))"
proof -
  have "save_inv s \<Longrightarrow> save_inv (fold host_step ops s)" for s
    by (induction ops arbitrary: s) (simp_all add: save_inv_host_step)
  then show ?thesis
    by (simp add: save_inv_Widget)
qed

text \<open>A second \<^verbatim>\<open>destroy\<close> changes nothing.\<close>

lemma destroy_idempotent: "destroy (destroy s) = destroy s"
  by (simp add: destroy_def clearTimeout_def cancelAnimationFrame_def unbind_def Let_def
        split: option.split)

subsection \<open>Between two pointer-ups\<close>

text \<open>An event leaves the save timers alone, or replaces them by one due in 500 ms.\<close>

lemma dispatch_save_timers:
  assumes "save_inv x" and "e \<in> set (save_timers (dispatch ev x))"
  shows "e \<in> set (save_timers x) \<or> fst (snd e) = now x + 500"
proof (cases ev)
  case (EvMouseUp p)
  show ?thesis
  proof (cases "MouseUpModify \<in> listeners x")
    case True
    have "save_timers (dispatch ev x) =
            [(next_handle (unbind MouseUpModify (unbind MouseMoveModify x)),
              now (unbind MouseUpModify (unbind MouseMoveModify x)) + 500, SaveOptions)]"
      using True EvMouseUp assms(1) by (simp add: dispatch_def onMouseUp_save_timers)
    with assms(2) show ?thesis by simp
  next
    case False
    with EvMouseUp assms(2) show ?thesis by (simp add: dispatch_def)
  qed
qed (use assms(2) in \<open>auto simp add: dispatch_def save_timers_def mouseDown_fields
       onMouseMove_fields clearTimeout_def setTimeout_def Let_def split: if_splits\<close>)

lemma host_step_save_timers:
  assumes "save_inv x" and "e \<in> set (save_timers (host_step a x))"
  shows "e \<in> set (save_timers x) \<or> fst (snd e) = now x + 500"
proof (cases a)
  case (OpEvent ev)
  with assms show ?thesis by (simp add: dispatch_save_timers)
qed (use assms(2) in \<open>auto simp add: save_timers_def init_fields inited_fields destroy_timers
       advance_fields frame_fields\<close>)

lemma host_step_writes:
  assumes "settling lo w0 x" and "in_window lo (lo + 500) a"
  shows "writes (host_step a x) = w0"
proof (cases a)
  case (OpAdvance t)
  have "filter (\<lambda>e. fst (snd e) \<le> t) (save_timers x) = []"
    using assms OpAdvance by (auto simp add: settling_def filter_empty_conv)
  then show ?thesis
    using assms(1) OpAdvance by (simp add: writes_advance settling_def)
qed (use assms(1) in \<open>simp_all add: settling_def init_fields inited_fields destroy_timers
       frame_fields dispatch_now_writes\<close>)

lemma host_step_now:
  assumes "lo \<le> now x" and "now x < hi" and "in_window lo hi a"
  shows "lo \<le> now (host_step a x) \<and> now (host_step a x) < hi"
  using assms
  by (cases a)
     (simp_all add: init_fields inited_fields destroy_timers frame_fields advance_fields
        dispatch_now_writes)

lemma settling_host_step:
  assumes "settling lo w0 x" and "in_window lo (lo + 500) a"
  shows "settling lo w0 (host_step a x)"
proof -
  have inv: "save_inv x" and lo: "lo \<le> now x" and hi: "now x < lo + 500"
    and due: "\<forall>e \<in> set (save_timers x). lo + 500 \<le> fst (snd e)"
    using assms(1) by (simp_all add: settling_def)
  have "lo + 500 \<le> fst (snd e)" if "e \<in> set (save_timers (host_step a x))" for e
    using host_step_save_timers [OF inv that] due lo by auto
  then show ?thesis
    using host_step_writes [OF assms] host_step_now [OF lo hi assms(2)]
      save_inv_host_step [OF inv, of a]
    by (simp add: settling_def)
qed

lemma settling_fold:
  "settling lo w0 x \<Longrightarrow> \<forall>a \<in> set ops. in_window lo (lo + 500) a \<Longrightarrow>
     settling lo w0 (fold host_step ops x)"
  by (induction ops arbitrary: x) (simp_all add: settling_host_step)

lemma settling_onMouseUp:
  "save_inv s \<Longrightarrow> settling (now s) (writes s) (onMouseUp pos action s)"
  by (simp add: settling_def save_inv_onMouseUp onMouseUp_fields onMouseUp_save_timers)

lemma onMouseUp_dimension: "w_dimension (onMouseUp pos action s) = w_dimension s"
  by (simp add: onMouseUp_def clearTimeout_def setTimeout_def Let_def)

subsection \<open>The animation loop\<close>

lemma inited_fps:
  "w_canvas s \<noteq> None \<Longrightarrow> a_fps (inited s) = min (o_frequency (w_options s)) 1"
  by (auto simp add: inited_def requestAnimationFrame_def Let_def)

lemma stalled_animate_tick:
  "stalled s \<Longrightarrow> a_loop s = l \<Longrightarrow>
     stalled (animate_tick l s) \<and> renders (animate_tick l s) = renders s"
  by (induction l s rule: animate_tick.induct) (auto simp add: stalled_def)

lemma stalled_animate: "stalled s \<Longrightarrow> stalled (animate s) \<and> renders (animate s) = renders s"
proof -
  assume st: "stalled s"
  have "stalled (snd (requestAnimationFrame Animate s))"
    using st by (simp add: stalled_def requestAnimationFrame_def)
  from stalled_animate_tick [OF this refl] show ?thesis
    by (simp add: animate_def animate_body_def requestAnimationFrame_def)
qed

lemma stalled_run_frame:
  "stalled s \<Longrightarrow> stalled (run_frame a s) \<and> renders (run_frame a s) = renders s"
proof (cases a)
  case StartLoop
  assume st: "stalled s"
  have "stalled (s\<lparr>a_loop := Some (js_div 1000 (a_fps s), of_int (now s))\<rparr>)"
    using st by (simp add: stalled_def js_div_def)
  from stalled_animate [OF this] StartLoop show ?thesis
    by (simp add: run_frame_def)
next
  case Animate
  assume "stalled s"
  from stalled_animate [OF this] Animate show ?thesis
    by (simp add: run_frame_def)
qed

lemma stalled_fold_run_frame:
  "stalled s \<Longrightarrow>
     stalled (fold (\<lambda>f. run_frame (snd f)) fs s)
     \<and> renders (fold (\<lambda>f. run_frame (snd f)) fs s) = renders s"
  by (induction fs arbitrary: s) (simp_all add: stalled_run_frame)

lemma stalled_frame: "stalled s \<Longrightarrow> stalled (frame t s) \<and> renders (frame t s) = renders s"
proof -
  assume st: "stalled s"
  have "stalled (s\<lparr>now := t, frames := []\<rparr>)"
    using st by (simp add: stalled_def)
  from stalled_fold_run_frame [OF this, of "frames s"] show ?thesis
    by (simp add: frame_def)
qed

lemma stalled_frames: "stalled s \<Longrightarrow> renders (fold frame ts s) = renders s"
  by (induction ts arbitrary: s) (simp_all add: stalled_frame)

text \<open>With frequency 0 no sequence of frames ever calls \<^verbatim>\<open>onRender\<close>.\<close>

lemma zero_frequency_stalls: "renders (fold frame ts (canvas_widget 0)) = 0"
proof -
  have "stalled (canvas_widget 0)" "renders (canvas_widget 0) = 0"
    by code_simp+
  then show ?thesis by (simp add: stalled_frames)
qed

section \<open>The claims\<close>

subsection \<open>Sticking\<close>




text \<open>
  The invariant of the position: after \<^verbatim>\<open>_setPosition(obj, true)\<close> exactly one anchor
  of each axis is not null, whenever the left and top that the call reads are numbers,
  whether \<^verbatim>\<open>obj\<close> is the caller's own object, falsy, or the stored position itself.
\<close>

lemma setPosition_stick_one_anchor:
  "l_left ob \<noteq> Null \<Longrightarrow> l_top ob \<noteq> Null \<Longrightarrow>
     one_anchor (w_position (setPosition (Some (Fresh ob)) True s))"
  "p_left (w_position s) \<noteq> Null \<Longrightarrow> p_top (w_position s) \<noteq> Null \<Longrightarrow>
     one_anchor (w_position (setPosition None True s))"
  "p_left (w_position s) \<noteq> Null \<Longrightarrow> p_top (w_position s) \<noteq> Null \<Longrightarrow>
     one_anchor (w_position (setPosition (Some Live) True s))"
  by (simp_all add: geometry_defs one_anchor_def Let_def split: option.split)

text \<open>
  C3. The claim is that exactly one anchor of each axis is not null after every call of
  \<^verbatim>\<open>_setPosition\<close> with \<^verbatim>\<open>stick = true\<close>. The widget dragged flush into the bottom
  right corner has right 0 and bottom 0. Pressing its resize handle stores the normalized
  position, which \<^verbatim>\<open>_getNormalizedPosition\<close> returns with left and top null because
  it tests 0 by truthiness; releasing the handle calls \<^verbatim>\<open>_setPosition(null, true)\<close>,
  and all four fields are null afterwards.
\<close>

theorem resize_release_loses_anchors:
  "w_position flush_corner =
     \<lparr>p_left = Null, p_top = Null, p_right = Num 0, p_bottom = Num 0\<rparr>
   \<and> one_anchor (w_position flush_corner)
   \<and> w_position flush_corner_resizing =
     \<lparr>p_left = Null, p_top = Null, p_right = Null, p_bottom = Null\<rparr>
   \<and> w_position (setPosition None True flush_corner_resizing) =
     \<lparr>p_left = Null, p_top = Null, p_right = Null, p_bottom = Null\<rparr>
   \<and> \<not> one_anchor (w_position (setPosition None True flush_corner_resizing))
   \<and> w_position (dispatch (EvMouseUp \<lparr>pt_x = 1020, pt_y = 760\<rparr>) flush_corner_resizing) =
     w_position (setPosition None True flush_corner_resizing)"
  by code_simp

subsection \<open>Clamping\<close>

text \<open>
  C4. Whenever the configured bounds satisfy min \<open>\<le>\<close> max on each axis, the dimension
  stored by \<^verbatim>\<open>_setDimension\<close> lies within them, whatever the input object is; the
  bounds themselves are not changed.
\<close>

theorem setDimension_clamped:
  "o_minWidth (w_options s) \<le> o_maxWidth (w_options s) \<Longrightarrow>
   o_minHeight (w_options s) \<le> o_maxHeight (w_options s) \<Longrightarrow>
     o_minWidth (w_options s) \<le> d_width (w_dimension (setDimension obj s))
     \<and> d_width (w_dimension (setDimension obj s)) \<le> o_maxWidth (w_options s)
     \<and> o_minHeight (w_options s) \<le> d_height (w_dimension (setDimension obj s))
     \<and> d_height (w_dimension (setDimension obj s)) \<le> o_maxHeight (w_options s)
     \<and> w_options (setDimension obj s) = w_options s"
  by (simp add: setDimension_def updateDimension_def Let_def split: option.split)

theorem setDimension_clamped_scenario:
  "o_minWidth (w_options scenario) \<le> o_maxWidth (w_options scenario)
   \<and> o_minHeight (w_options scenario) \<le> o_maxHeight (w_options scenario)
   \<and> 64 \<le> d_width (w_dimension (setDimension \<lparr>d_width = 1000000, d_height = - 7\<rparr> scenario))
   \<and> d_width (w_dimension (setDimension \<lparr>d_width = 1000000, d_height = - 7\<rparr> scenario)) \<le> 500
   \<and> 64 \<le> d_height (w_dimension (setDimension \<lparr>d_width = 1000000, d_height = - 7\<rparr> scenario))
   \<and> d_height (w_dimension (setDimension \<lparr>d_width = 1000000, d_height = - 7\<rparr> scenario)) \<le> 500"
  using setDimension_clamped [of scenario "\<lparr>d_width = 1000000, d_height = - 7\<rparr>"]
  by (simp add: scenario_bounds)

subsection \<open>Resizing\<close>

text \<open>
  C5. Pointer-down on the resize handle records the pointer as the drag origin and the
  current dimension as the baseline, and a pointer move changes neither. For a pointer at
  \<open>pos\<close>, with \<open>dx\<close> and \<open>dy\<close> its distance from the origin, the object proposed to
  \<^verbatim>\<open>_setDimension\<close>, before any clamping, has width baseline + \<open>dx\<close> in all cases, and
  height baseline + \<open>dx\<close> when \<^verbatim>\<open>options.aspect\<close> is set and baseline + \<open>dy\<close>
  otherwise.
\<close>

theorem resize_proposed_dimension:
  "b_dimension (mouseDown p ''resize'' s) = w_dimension s
   \<and> b_start (mouseDown p ''resize'' s) = p
   \<and> b_dimension (onMouseMove obj ''resize'' s) = b_dimension s
   \<and> b_start (onMouseMove obj ''resize'' s) = b_start s
   \<and> dragObject ''resize'' pos s =
       DimObj \<lparr>d_width = d_width (b_dimension s) + (pt_x pos - pt_x (b_start s)),
               d_height = (if o_aspect (w_options s) \<noteq> 0
                           then d_height (b_dimension s) + (pt_x pos - pt_x (b_start s))
                           else d_height (b_dimension s) + (pt_y pos - pt_y (b_start s)))\<rparr>
   \<and> (MouseMoveModify \<in> listeners s \<and> b_action s = ''resize'' \<longrightarrow>
        dispatch (EvMouseMove pos) s =
          setDimension
            \<lparr>d_width = d_width (b_dimension s) + (pt_x pos - pt_x (b_start s)),
             d_height = (if o_aspect (w_options s) \<noteq> 0
                         then d_height (b_dimension s) + (pt_x pos - pt_x (b_start s))
                         else d_height (b_dimension s) + (pt_y pos - pt_y (b_start s)))\<rparr>
            (s\<lparr>w_isManipulating := True\<rparr>))"
  by (simp add: mouseDown_def onMouseDown_def onMouseMove_def dragObject_def dispatch_def
        addClass_def getDimension_def bind_def clearTimeout_def Let_def
        split: option.split drag_obj.split)

text \<open>
  With the pointer pressed at (300, 250) and moved to (340, 260), a 200 by 150 widget
  proposes 240 by 190 under the aspect option and 240 by 160 without it.
\<close>

theorem resize_proposed_dimension_scenario:
  "MouseMoveModify \<in> listeners scenario_resizing
   \<and> b_action scenario_resizing = ''resize''
   \<and> dragObject ''resize'' \<lparr>pt_x = 340, pt_y = 260\<rparr> aspect_resizing =
       DimObj \<lparr>d_width = 240, d_height = 190\<rparr>
   \<and> dragObject ''resize'' \<lparr>pt_x = 340, pt_y = 260\<rparr> scenario_resizing =
       DimObj \<lparr>d_width = 240, d_height = 160\<rparr>
   \<and> dispatch (EvMouseMove \<lparr>pt_x = 340, pt_y = 260\<rparr>) scenario_resizing =
       setDimension \<lparr>d_width = 240, d_height = 160\<rparr>
         (scenario_resizing\<lparr>w_isManipulating := True\<rparr>)"
  using resize_proposed_dimension [of _ aspect_resizing _ "\<lparr>pt_x = 340, pt_y = 260\<rparr>"]
    resize_proposed_dimension [of _ scenario_resizing _ "\<lparr>pt_x = 340, pt_y = 260\<rparr>"]
  by (simp add: resizing_facts)

subsection \<open>Normalizing\<close>




text \<open>
  C10. \<^verbatim>\<open>_getNormalizedPosition\<close> tests right and bottom by truthiness: when right is 0
  the returned left is the stored left field, and when bottom is 0 the returned top is the
  stored top field; for a widget anchored at the far edge that field is null, so null is
  returned and not \<^verbatim>\<open>windowWidth - right - width\<close> (\<^verbatim>\<open>windowHeight - bottom - height\<close>).
\<close>

theorem getNormalizedPosition_zero_anchor:
  "(p_right (w_position s) = Num 0 \<longrightarrow>
      l_left (getNormalizedPosition s) = p_left (w_position s))
   \<and> (p_bottom (w_position s) = Num 0 \<longrightarrow>
      l_top (getNormalizedPosition s) = p_top (w_position s))
   \<and> (p_right (w_position s) = Num 0 \<and> p_left (w_position s) = Null \<longrightarrow>
      l_left (getNormalizedPosition s) = Null
      \<and> l_left (getNormalizedPosition s)
          \<noteq> Num (w_windowWidth s - to_number (p_right (w_position s))
                   - d_width (w_dimension s)))
   \<and> (p_bottom (w_position s) = Num 0 \<and> p_top (w_position s) = Null \<longrightarrow>
      l_top (getNormalizedPosition s) = Null
      \<and> l_top (getNormalizedPosition s)
          \<noteq> Num (w_windowHeight s - to_number (p_bottom (w_position s))
                   - d_height (w_dimension s)))"
  by (simp add: getNormalizedPosition_def Let_def)

theorem getNormalizedPosition_zero_anchor_corner:
  "p_right (w_position flush_corner) = Num 0
   \<and> p_bottom (w_position flush_corner) = Num 0
   \<and> p_left (w_position flush_corner) = Null
   \<and> p_top (w_position flush_corner) = Null
   \<and> getNormalizedPosition flush_corner = \<lparr>l_left = Null, l_top = Null\<rparr>"
  using getNormalizedPosition_zero_anchor [of flush_corner]
  by (simp add: flush_corner_geometry)

subsection \<open>Rendering the position\<close>

text \<open>
  C9. In \<^verbatim>\<open>_updatePosition\<close> a right field that is not null wins over left, which is
  styled \<^verbatim>\<open>'auto'\<close>, and a bottom field that is not null wins over top. The defaults
  are left -1, right -1, top 0, bottom 0, none of them null, so a widget constructed
  without position options and without a saved position is mounted with right -1 and
  bottom 0, and left and top \<^verbatim>\<open>'auto'\<close>, in every viewport.
\<close>

theorem updatePosition_far_edge_wins:
  "(w_element s \<noteq> None \<and> p_right (w_position s) \<noteq> Null \<longrightarrow>
      map_option (\<lambda>e. (el_left e, el_right e)) (w_element (updatePosition s)) =
        Some (Auto, Px (p_right (w_position s))))
   \<and> (w_element s \<noteq> None \<and> p_bottom (w_position s) \<noteq> Null \<longrightarrow>
      map_option (\<lambda>e. (el_top e, el_bottom e)) (w_element (updatePosition s)) =
        Some (Auto, Px (p_bottom (w_position s))))
   \<and> (c_left c = None \<and> c_right c = None \<and> c_top c = None \<and> c_bottom c = None
       \<and> s_left st = None \<and> s_right st = None \<and> s_top st = None \<and> s_bottom st = None \<longrightarrow>
      w_position (Widget c st iw ih) =
        \<lparr>p_left = Num (- 1), p_top = Num 0, p_right = Num (- 1), p_bottom = Num 0\<rparr>
      \<and> map_option (\<lambda>e. (el_left e, el_right e, el_top e, el_bottom e))
           (w_element (init (Widget c st iw ih))) =
          Some (Auto, Px (Num (- 1)), Auto, Px (Num 0)))"
  by (auto simp add: updatePosition_element init_styles Widget_position pick_def)

theorem updatePosition_far_edge_wins_quarter:
  "w_element quarter_dragged \<noteq> None
   \<and> p_right (w_position quarter_dragged) \<noteq> Null
   \<and> p_bottom (w_position quarter_dragged) \<noteq> Null
   \<and> map_option (\<lambda>e. (el_left e, el_right e)) (w_element (updatePosition quarter_dragged)) =
       Some (Auto, Px (Num 224))
   \<and> map_option (\<lambda>e. (el_top e, el_bottom e)) (w_element (updatePosition quarter_dragged)) =
       Some (Auto, Px (Num 118))
   \<and> c_left no_opts = None \<and> c_right no_opts = None \<and> c_top no_opts = None
   \<and> c_bottom no_opts = None \<and> s_left no_settings = None \<and> s_right no_settings = None
   \<and> s_top no_settings = None \<and> s_bottom no_settings = None
   \<and> map_option (\<lambda>e. (el_left e, el_right e, el_top e, el_bottom e))
        (w_element (init (Widget no_opts no_settings 1024 768))) =
       Some (Auto, Px (Num (- 1)), Auto, Px (Num 0))"
  using updatePosition_far_edge_wins [of quarter_dragged no_opts no_settings 1024 768]
  by (simp add: quarter_dragged_geometry quarter_dragged_element empty_facts)

subsection \<open>Saving\<close>

text \<open>
  C7, as amended. In a state where the only pending save timer is the one
  \<^verbatim>\<open>_saveTimeout\<close> refers to, a pointer-up leaves exactly one save timer pending, due
  500 ms later; until then nothing is written, and from then on exactly one write has
  been made, the record \<^verbatim>\<open>{width, height, left, top, right, bottom}\<close> with the width and
  height of the current dimension and the four fields of the current position, copied as
  they are stored. When a second pointer-up follows less than 500 ms after the first,
  whatever the host and the pointer do in between while the clock stays inside those
  500 ms, nothing is written until 500 ms after the second pointer-up, and then the final
  state is written once.
\<close>

theorem pointer_up_debounce:
  "save_inv s \<Longrightarrow>
     save_timers (onMouseUp pos action s) = [(next_handle s, now s + 500, SaveOptions)]
     \<and> w_saveTimeout (onMouseUp pos action s) = Some (next_handle s)
     \<and> (\<forall>t. t < now s + 500 \<longrightarrow>
           writes (advance t (onMouseUp pos action s)) = writes s)
     \<and> (\<forall>t. now s + 500 \<le> t \<longrightarrow>
           writes (advance t (onMouseUp pos action s)) =
             writes s @ [save_record (onMouseUp pos action s)])
     \<and> save_record (onMouseUp pos action s) =
         \<lparr>sv_width = d_width (w_dimension s), sv_height = d_height (w_dimension s),
          sv_left = p_left (w_position (onMouseUp pos action s)),
          sv_top = p_top (w_position (onMouseUp pos action s)),
          sv_right = p_right (w_position (onMouseUp pos action s)),
          sv_bottom = p_bottom (w_position (onMouseUp pos action s))\<rparr>
     \<and> (\<forall>ops pos2 action2 t.
           (\<forall>a \<in> set ops. in_window (now s) (now s + 500) a) \<longrightarrow>
           writes (advance t
             (onMouseUp pos2 action2 (fold host_step ops (onMouseUp pos action s)))) =
           (if t < now (fold host_step ops (onMouseUp pos action s)) + 500 then writes s
            else writes s @ [save_record
              (onMouseUp pos2 action2 (fold host_step ops (onMouseUp pos action s)))]))"
proof -
  assume inv: "save_inv s"
  have second: "writes (advance t
             (onMouseUp pos2 action2 (fold host_step ops (onMouseUp pos action s)))) =
           (if t < now (fold host_step ops (onMouseUp pos action s)) + 500 then writes s
            else writes s @ [save_record
              (onMouseUp pos2 action2 (fold host_step ops (onMouseUp pos action s)))])"
    if inside: "\<forall>a \<in> set ops. in_window (now s) (now s + 500) a" for ops pos2 action2 t
  proof -
    let ?m = "fold host_step ops (onMouseUp pos action s)"
    have "settling (now s) (writes s) ?m"
      using settling_fold [OF settling_onMouseUp [OF inv] inside] .
    then have m_inv: "save_inv ?m" and m_writes: "writes ?m = writes s"
      by (simp_all add: settling_def)
    show ?thesis
      using pointer_up_writes [OF m_inv, of t pos2 action2]
      by (simp add: m_writes)
  qed
  have written: "save_record (onMouseUp pos action s) =
         \<lparr>sv_width = d_width (w_dimension s), sv_height = d_height (w_dimension s),
          sv_left = p_left (w_position (onMouseUp pos action s)),
          sv_top = p_top (w_position (onMouseUp pos action s)),
          sv_right = p_right (w_position (onMouseUp pos action s)),
          sv_bottom = p_bottom (w_position (onMouseUp pos action s))\<rparr>"
    by (simp add: save_record_def onMouseUp_dimension)
  show ?thesis
    using second written
    by (simp add: inv onMouseUp_save_timers onMouseUp_fields pointer_up_writes)
qed

text \<open>
  The scenario's drag released at time 0 writes at 500 ms; when the widget is pressed
  again at 100 ms, moved at 300 ms and released then, the only write is the one at
  800 ms, of the second drag's result.
\<close>

theorem pointer_up_debounce_scenario:
  "save_inv scenario_dragged
   \<and> list_all (in_window 0 500) quick_second_drag
   \<and> save_timers (onMouseUp \<lparr>pt_x = 510, pt_y = 10\<rparr> ''move'' scenario_dragged) =
       [(1, 500, SaveOptions)]
   \<and> writes (advance 499 (onMouseUp \<lparr>pt_x = 510, pt_y = 10\<rparr> ''move'' scenario_dragged)) = []
   \<and> writes (advance 500 (onMouseUp \<lparr>pt_x = 510, pt_y = 10\<rparr> ''move'' scenario_dragged)) =
       [\<lparr>sv_width = 200, sv_height = 150, sv_left = Null, sv_top = Num 100,
         sv_right = Num 224, sv_bottom = Null\<rparr>]
   \<and> writes (advance 799
        (onMouseUp \<lparr>pt_x = 410, pt_y = 10\<rparr> ''move''
          (fold host_step quick_second_drag
            (onMouseUp \<lparr>pt_x = 510, pt_y = 10\<rparr> ''move'' scenario_dragged)))) = []
   \<and> writes (advance 800
        (onMouseUp \<lparr>pt_x = 410, pt_y = 10\<rparr> ''move''
          (fold host_step quick_second_drag
            (onMouseUp \<lparr>pt_x = 510, pt_y = 10\<rparr> ''move'' scenario_dragged)))) =
       [\<lparr>sv_width = 200, sv_height = 150, sv_left = Null, sv_top = Num 100,
         sv_right = Num 324, sv_bottom = Null\<rparr>]"
  using pointer_up_debounce
    [OF scenario_dragged_facts(1), of "\<lparr>pt_x = 510, pt_y = 10\<rparr>" "''move''"]
  by (simp add: scenario_dragged_facts quick_second_drag_facts list_all_iff)

text \<open>
  As stated, C7 fails twice. The six fields are not all numeric: the record written
  after the scenario's drag has \<^verbatim>\<open>left\<close> and \<^verbatim>\<open>bottom\<close> null. And two drags less
  than 500 ms apart do not always coalesce: pointer-down does not cancel the save timer,
  so when the second drag starts 100 ms after the first and is held until 600 ms, the
  timer of the first fires during it, and there are two writes.
\<close>

theorem saved_record_null_anchor:
  "writes (advance 500 (dispatch (EvMouseUp \<lparr>pt_x = 510, pt_y = 10\<rparr>) scenario_dragged)) =
     [\<lparr>sv_width = 200, sv_height = 150, sv_left = Null, sv_top = Num 100,
       sv_right = Num 224, sv_bottom = Null\<rparr>]
   \<and> writes (fold host_step held_second_drag scenario_released) =
     [\<lparr>sv_width = 200, sv_height = 150, sv_left = Null, sv_top = Num 100,
       sv_right = Num 224, sv_bottom = Null\<rparr>,
      \<lparr>sv_width = 200, sv_height = 150, sv_left = Null, sv_top = Num 100,
       sv_right = Num 324, sv_bottom = Null\<rparr>]"
  by code_simp

subsection \<open>The frame rate\<close>

text \<open>
  C2. The claim is a rate of \<^verbatim>\<open>max(frequency, 1)\<close> frames per second. The source
  computes \<^verbatim>\<open>Math.min(frequency, 1)\<close>: with frequency 2 the rate is 1 and the interval
  1000 ms, so a frame 600 ms after the start does not render and one after 1001 ms does;
  with frequency 0 the rate is 0 and the interval infinite, and no frame renders.
\<close>

theorem inited_frame_rate:
  "a_fps (canvas_widget 2) = 1
   \<and> a_loop (frame 0 (canvas_widget 2)) = Some (Finite 1000, 0)
   \<and> renders (frame 600 (frame 0 (canvas_widget 2))) = 0
   \<and> renders (frame 1001 (frame 0 (canvas_widget 2))) = 1
   \<and> a_fps (canvas_widget 0) = 0
   \<and> a_loop (frame 0 (canvas_widget 0)) = Some (Infinity, 0)
   \<and> renders (frame 1000000000 (frame 0 (canvas_widget 0))) = 0"
  by code_simp

subsection \<open>Destroying a running widget\<close>

text \<open>
  C8. \<^verbatim>\<open>destroy\<close> does clear the save timer, the handle and the node references, and
  a second call changes nothing (the lemmas on destruction above). The frame request it
  cancels is the one \<^verbatim>\<open>_inited\<close> made. Once that request has run, the request that is
  active is the one \<^verbatim>\<open>animate\<close> made for itself, whose handle was never stored: for a
  canvas widget after its first frame, \<^verbatim>\<open>destroy\<close> leaves request 2 pending, and a
  later frame still calls \<^verbatim>\<open>onRender\<close>.
\<close>

theorem destroy_leaves_loop_running:
  "w_requestId (frame 0 (canvas_widget 2)) = Some 1
   \<and> frames (frame 0 (canvas_widget 2)) = [(2, Animate)]
   \<and> w_requestId (destroy (frame 0 (canvas_widget 2))) = None
   \<and> frames (destroy (frame 0 (canvas_widget 2))) = [(2, Animate)]
   \<and> renders (destroy (frame 0 (canvas_widget 2))) = 0
   \<and> renders (frame 1001 (destroy (frame 0 (canvas_widget 2)))) = 1"
  by code_simp

end
